theory Spec2Isabelle
  imports Complex_Main "HOL-Library.Multiset"
begin

section \<open>Event management backend: data model\<close>

text \<open>
  The backend (\<^verbatim>\<open>backend/app.py\<close>) is a set of HTTP handlers over four tables. A handler is
  modelled as a function from the decoded request and the store to the response and the
  new store. What the framework does around a handler is made explicit as follows.
  \<^item> The store is a record of the four tables, each a list of rows in insertion order,
    with one counter per table for the next primary key (the integer primary keys are
    assigned by the store and never reused).
  \<^item> A request body is the decoded JSON object. A key of the object is \<open>Absent\<close>, holds
    JSON \<open>null\<close> (\<open>Null\<close>), or holds a value of the type its column stores.
  \<^item> The caller identity that \<^verbatim>\<open>get_jwt_identity()\<close> returns is a handler argument.
  \<^item> The clock (\<^verbatim>\<open>datetime.utcnow\<close>), the salted password hash, its check, and
    \<^verbatim>\<open>datetime.fromisoformat\<close> are arguments of the handlers that use them.
  \<^item> A handler returns \<^verbatim>\<open>jsonify(...), status\<close>; the model returns the payload and the
    status (200 where the source gives none). The abort of \<^verbatim>\<open>get_or_404\<close> is the payload
    \<open>NotFound\<close> with status 404. An exception that no handler catches is the payload
    \<open>Unhandled\<close> with status 500; nothing of the request is committed then, as nothing
    is committed when a handler returns before \<^verbatim>\<open>db.session.commit()\<close>.
  \<^item> An instant is an integer (a point on the time line); a price is the rational
    number the stored float denotes, and the only operation on it is comparison with 0.
    Column length limits are left to the storage engine and are not modelled.
\<close>

type_synonym datetime = int

record User =
  u_id :: int
  u_name :: string
  u_email :: string
  u_password :: string
  u_role :: string
  u_profile_photo :: "string option"
  u_created_at :: datetime

record Event =
  e_id :: int
  e_title :: string
  e_description :: string
  e_date :: datetime
  e_location :: string
  e_price :: rat
  e_banner :: "string option"
  e_organizer_id :: int
  e_created_at :: datetime

record RSVP =
  r_id :: int
  r_user_id :: int
  r_event_id :: int
  r_payment_status :: string
  r_created_at :: datetime

record Comment =
  c_id :: int
  c_user_id :: int
  c_event_id :: int
  c_content :: string
  c_timestamp :: datetime

record db =
  users :: "User list"
  events :: "Event list"
  rsvps :: "RSVP list"
  comments :: "Comment list"
  next_user_id :: int
  next_event_id :: int
  next_rsvp_id :: int
  next_comment_id :: int

subsection \<open>Request bodies\<close>

datatype 'a field = Absent | Null | Val 'a

text \<open>\<^verbatim>\<open>data.get(k)\<close>: Python's \<open>None\<close> for a missing key and for JSON \<open>null\<close>.\<close>

fun get :: "'a field \<Rightarrow> 'a option" where
  "get Absent = None"
| "get Null = None"
| "get (Val v) = Some v"

text \<open>\<^verbatim>\<open>data.get(k, default)\<close>: the default only for a missing key.\<close>

fun get_default :: "'a field \<Rightarrow> 'a \<Rightarrow> 'a option" where
  "get_default Absent d = Some d"
| "get_default Null d = None"
| "get_default (Val v) d = Some v"

text \<open>Truthiness of the value of \<^verbatim>\<open>data.get(k)\<close>: \<open>None\<close>, the empty string and 0 are false.\<close>

fun truthy_str :: "string option \<Rightarrow> bool" where
  "truthy_str None = False"
| "truthy_str (Some s) = (s \<noteq> [])"

fun truthy_int :: "int option \<Rightarrow> bool" where
  "truthy_int None = False"
| "truthy_int (Some n) = (n \<noteq> 0)"

text \<open>
  A column default is applied on insert when the constructor was given \<open>None\<close> for the
  column: the unit of work leaves such a column out of the INSERT.
\<close>

fun column_default :: "'a option \<Rightarrow> 'a \<Rightarrow> 'a" where
  "column_default None d = d"
| "column_default (Some v) d = v"

record register_body =
  rb_name :: "string field"
  rb_email :: "string field"
  rb_password :: "string field"
  rb_role :: "string field"

record login_body =
  lb_email :: "string field"
  lb_password :: "string field"

record event_body =
  eb_title :: "string field"
  eb_description :: "string field"
  eb_date :: "string field"
  eb_location :: "string field"
  eb_price :: "rat field"
  eb_banner :: "string field"

record rsvp_body =
  rv_event_id :: "int field"

record comment_body =
  cb_content :: "string field"

subsection \<open>Responses\<close>

record user_info =
  ui_id :: int
  ui_name :: string
  ui_email :: string
  ui_role :: string

record event_info =
  ei_id :: int
  ei_title :: string
  ei_description :: string
  ei_date :: datetime
  ei_location :: string
  ei_price :: rat
  ei_banner :: "string option"

record event_view =
  ev_id :: int
  ev_title :: string
  ev_description :: string
  ev_date :: datetime
  ev_location :: string
  ev_price :: rat
  ev_banner :: "string option"
  ev_organizer_name :: string
  ev_rsvp_count :: nat

record comment_view =
  cv_id :: int
  cv_content :: string
  cv_timestamp :: datetime
  cv_user_name :: string
  cv_user_id :: int

text \<open>
  The JSON payloads. \<open>Authenticated m i u\<close> is the message, the access token (given by
  the identity \<open>i\<close> it was issued for) and the user object.
\<close>

datatype payload =
  Error string
| Message string
| Authenticated string int user_info
| EventCreated string event_info
| CommentAdded string comment_view
| EventList "event_view list"
| CommentList "comment_view list"
| NotFound
| Unhandled string

type_synonym response = "payload \<times> nat"

subsection \<open>Queries\<close>

text \<open>\<^verbatim>\<open>Model.query.get(id)\<close>, and \<^verbatim>\<open>get_or_404\<close> with \<open>None\<close> for the 404.\<close>

definition get_user :: "db \<Rightarrow> int \<Rightarrow> User option" where
  "get_user s i = find (\<lambda>u. u_id u = i) (users s)"

definition get_event :: "db \<Rightarrow> int \<Rightarrow> Event option" where
  "get_event s i = find (\<lambda>e. e_id e = i) (events s)"

text \<open>\<^verbatim>\<open>User.query.filter_by(email=...).first()\<close>\<close>

definition user_by_email :: "db \<Rightarrow> string \<Rightarrow> User option" where
  "user_by_email s em = find (\<lambda>u. u_email u = em) (users s)"

text \<open>\<^verbatim>\<open>RSVP.query.filter_by(user_id=..., event_id=...).first()\<close>\<close>

definition rsvp_of :: "db \<Rightarrow> int \<Rightarrow> int \<Rightarrow> RSVP option" where
  "rsvp_of s uid eid = find (\<lambda>r. r_user_id r = uid \<and> r_event_id r = eid) (rsvps s)"

text \<open>The collections \<^verbatim>\<open>event.rsvps\<close> and \<^verbatim>\<open>event.comments\<close> of the relationships.\<close>

definition event_rsvps :: "db \<Rightarrow> int \<Rightarrow> RSVP list" where
  "event_rsvps s eid = filter (\<lambda>r. r_event_id r = eid) (rsvps s)"

definition event_comments :: "db \<Rightarrow> int \<Rightarrow> Comment list" where
  "event_comments s eid = filter (\<lambda>c. c_event_id c = eid) (comments s)"

section \<open>Authentication routes\<close>

definition user_json :: "User \<Rightarrow> user_info" where
  "user_json u = \<lparr>ui_id = u_id u, ui_name = u_name u, ui_email = u_email u, ui_role = u_role u\<rparr>"

text \<open>
  \<^verbatim>\<open>register\<close> (lines 75-107). The three guards \<^verbatim>\<open>not data.get(k)\<close> leave, on the path
  past them, each of \<^verbatim>\<open>data[k]\<close> a non-empty string. An empty object is falsy as a
  missing body is, and fails the same guard.
\<close>

definition register ::
  "(string \<Rightarrow> string) \<Rightarrow> datetime \<Rightarrow> register_body option \<Rightarrow> db \<Rightarrow> response \<times> db" where
  "register generate_password_hash now data s =
    (case data of
       None \<Rightarrow> ((Error ''Missing required fields'', 400), s)
     | Some d \<Rightarrow>
        (case (get (rb_email d), get (rb_password d), get (rb_name d)) of
           (Some email, Some password, Some name) \<Rightarrow>
             if \<not> truthy_str (Some email) \<or> \<not> truthy_str (Some password)
                \<or> \<not> truthy_str (Some name)
             then ((Error ''Missing required fields'', 400), s)
             else
               (case user_by_email s email of
                  Some existing \<Rightarrow> ((Error ''Email already registered'', 400), s)
                | None \<Rightarrow>
                   let hashed_password = generate_password_hash password;
                       user = \<lparr>u_id = next_user_id s,
                               u_name = name,
                               u_email = email,
                               u_password = hashed_password,
                               u_role = column_default
                                          (get_default (rb_role d) ''student'') ''student'',
                               u_profile_photo = None,
                               u_created_at = now\<rparr>
                   in ((Authenticated ''User registered successfully'' (u_id user)
                          (user_json user), 201),
                       s\<lparr>users := users s @ [user],
                         next_user_id := next_user_id s + 1\<rparr>))
         | _ \<Rightarrow> ((Error ''Missing required fields'', 400), s)))"

text \<open>\<^verbatim>\<open>login\<close> (lines 110-132).\<close>

definition login ::
  "(string \<Rightarrow> string \<Rightarrow> bool) \<Rightarrow> login_body option \<Rightarrow> db \<Rightarrow> response \<times> db" where
  "login check_password_hash data s =
    (case data of
       None \<Rightarrow> ((Error ''Missing email or password'', 400), s)
     | Some d \<Rightarrow>
        (case (get (lb_email d), get (lb_password d)) of
           (Some email, Some password) \<Rightarrow>
             if \<not> truthy_str (Some email) \<or> \<not> truthy_str (Some password)
             then ((Error ''Missing email or password'', 400), s)
             else
               (case user_by_email s email of
                  None \<Rightarrow> ((Error ''Invalid email or password'', 401), s)
                | Some user \<Rightarrow>
                   if \<not> check_password_hash (u_password user) password
                   then ((Error ''Invalid email or password'', 401), s)
                   else ((Authenticated ''Login successful'' (u_id user) (user_json user), 200),
                         s))
         | _ \<Rightarrow> ((Error ''Missing email or password'', 400), s)))"

section \<open>Event routes\<close>

text \<open>The dictionary built for an event in the listing (lines 159-169).\<close>

definition event_json :: "db \<Rightarrow> Event \<Rightarrow> event_view" where
  "event_json s event =
    \<lparr>ev_id = e_id event,
     ev_title = e_title event,
     ev_description = e_description event,
     ev_date = e_date event,
     ev_location = e_location event,
     ev_price = e_price event,
     ev_banner = e_banner event,
     ev_organizer_name =
       (case get_user s (e_organizer_id event) of Some organizer \<Rightarrow> u_name organizer
        | None \<Rightarrow> ''Unknown''),
     ev_rsvp_count = length (event_rsvps s (e_id event))\<rparr>"

text \<open>
  \<^verbatim>\<open>get_events\<close> (lines 153-171). \<^verbatim>\<open>order_by(Event.date.asc())\<close> is a sort of the table
  on the date; the order of rows with equal dates is the store's choice, here the
  insertion order.
\<close>

definition get_events :: "db \<Rightarrow> response" where
  "get_events s = (EventList (map (event_json s) (sort_key e_date (events s))), 200)"

text \<open>\<^verbatim>\<open>s.replace('Z', '+00:00')\<close>: every occurrence of the letter is replaced.\<close>

definition replace_Z :: "string \<Rightarrow> string" where
  "replace_Z s = concat (map (\<lambda>c. if c = CHR ''Z'' then ''+00:00'' else [c]) s)"

text \<open>
  \<^verbatim>\<open>datetime.fromisoformat(data['date'].replace('Z', '+00:00'))\<close>, with \<open>None\<close> for the
  \<^verbatim>\<open>ValueError\<close> of the parser.
\<close>

definition parse_date :: "(string \<Rightarrow> datetime option) \<Rightarrow> string \<Rightarrow> datetime option" where
  "parse_date fromisoformat s = fromisoformat (replace_Z s)"

text \<open>
  \<^verbatim>\<open>create_event\<close> (lines 175-216). \<^verbatim>\<open>user.role\<close> on a caller identity with no row is an
  \<^verbatim>\<open>AttributeError\<close>.
\<close>

definition create_event ::
  "(string \<Rightarrow> datetime option) \<Rightarrow> datetime \<Rightarrow> int \<Rightarrow> event_body option \<Rightarrow> db
     \<Rightarrow> response \<times> db" where
  "create_event fromisoformat now user_id data s =
    (case get_user s user_id of
       None \<Rightarrow> ((Unhandled ''AttributeError'', 500), s)
     | Some user \<Rightarrow>
        if u_role user \<noteq> ''organizer''
        then ((Error ''Only organizers can create events'', 403), s)
        else
          (case data of
             None \<Rightarrow> ((Error ''Missing required fields'', 400), s)
           | Some d \<Rightarrow>
              if \<not> truthy_str (get (eb_title d)) \<or> \<not> truthy_str (get (eb_description d))
                 \<or> \<not> truthy_str (get (eb_date d)) \<or> \<not> truthy_str (get (eb_location d))
              then ((Error ''Missing required fields'', 400), s)
              else
                (case (get (eb_title d), get (eb_description d), get (eb_date d),
                       get (eb_location d)) of
                   (Some title, Some description, Some date, Some location) \<Rightarrow>
                     (case parse_date fromisoformat date of
                        None \<Rightarrow> ((Error ''Invalid date format'', 400), s)
                      | Some event_date \<Rightarrow>
                         let event = \<lparr>e_id = next_event_id s,
                                      e_title = title,
                                      e_description = description,
                                      e_date = event_date,
                                      e_location = location,
                                      e_price = column_default (get_default (eb_price d) 0) 0,
                                      e_banner = get (eb_banner d),
                                      e_organizer_id = user_id,
                                      e_created_at = now\<rparr>
                         in ((EventCreated ''Event created successfully''
                                \<lparr>ei_id = e_id event,
                                 ei_title = e_title event,
                                 ei_description = e_description event,
                                 ei_date = e_date event,
                                 ei_location = e_location event,
                                 ei_price = e_price event,
                                 ei_banner = e_banner event\<rparr>, 201),
                             s\<lparr>events := events s @ [event],
                               next_event_id := next_event_id s + 1\<rparr>))
                 | _ \<Rightarrow> ((Error ''Missing required fields'', 400), s))))"

text \<open>
  The assignments of \<^verbatim>\<open>update_event\<close>. \<^verbatim>\<open>if data.get(k): event.k = data[k]\<close> assigns a
  non-empty string and keeps the old value otherwise; the price is assigned when it
  \<^verbatim>\<open>is not None\<close>.
\<close>

definition patch_str :: "string field \<Rightarrow> string \<Rightarrow> string" where
  "patch_str f old =
    (case get f of Some v \<Rightarrow> if truthy_str (Some v) then v else old | None \<Rightarrow> old)"

definition patch_banner :: "string field \<Rightarrow> string option \<Rightarrow> string option" where
  "patch_banner f old =
    (case get f of Some v \<Rightarrow> if truthy_str (Some v) then Some v else old | None \<Rightarrow> old)"

definition patch_price :: "rat field \<Rightarrow> rat \<Rightarrow> rat" where
  "patch_price f old = (case get f of Some v \<Rightarrow> v | None \<Rightarrow> old)"

text \<open>The date: \<open>None\<close> is the early return on a \<^verbatim>\<open>ValueError\<close>.\<close>

definition patch_date ::
  "(string \<Rightarrow> datetime option) \<Rightarrow> string field \<Rightarrow> datetime \<Rightarrow> datetime option" where
  "patch_date fromisoformat f old =
    (case get f of
       Some v \<Rightarrow> if truthy_str (Some v) then parse_date fromisoformat v else Some old
     | None \<Rightarrow> Some old)"

text \<open>The UPDATE of the row with the event's primary key.\<close>

definition store_event :: "Event \<Rightarrow> db \<Rightarrow> db" where
  "store_event event s =
    s\<lparr>events := map (\<lambda>e. if e_id e = e_id event then event else e) (events s)\<rparr>"

text \<open>
  \<^verbatim>\<open>update_event\<close> (lines 237-264). There is no guard on \<^verbatim>\<open>data\<close>: without a body
  \<^verbatim>\<open>data.get\<close> is an \<^verbatim>\<open>AttributeError\<close>. The early return on a malformed date comes
  after the title and the description were assigned on the loaded object, and before the
  commit: the row is unchanged.
\<close>

definition update_event ::
  "(string \<Rightarrow> datetime option) \<Rightarrow> int \<Rightarrow> int \<Rightarrow> event_body option \<Rightarrow> db \<Rightarrow> response \<times> db" where
  "update_event fromisoformat user_id event_id data s =
    (case get_event s event_id of
       None \<Rightarrow> ((NotFound, 404), s)
     | Some event \<Rightarrow>
        if e_organizer_id event \<noteq> user_id
        then ((Error ''Only the organizer can update this event'', 403), s)
        else
          (case data of
             None \<Rightarrow> ((Unhandled ''AttributeError'', 500), s)
           | Some d \<Rightarrow>
              (case patch_date fromisoformat (eb_date d) (e_date event) of
                 None \<Rightarrow> ((Error ''Invalid date format'', 400), s)
               | Some date \<Rightarrow>
                  ((Message ''Event updated successfully'', 200),
                   store_event
                     (event\<lparr>e_title := patch_str (eb_title d) (e_title event),
                            e_description := patch_str (eb_description d) (e_description event),
                            e_date := date,
                            e_location := patch_str (eb_location d) (e_location event),
                            e_price := patch_price (eb_price d) (e_price event),
                            e_banner := patch_banner (eb_banner d) (e_banner event)\<rparr>) s))))"

text \<open>
  \<^verbatim>\<open>delete_event\<close> (lines 268-278). The relationships \<^verbatim>\<open>rsvps\<close> and \<^verbatim>\<open>comments\<close> of
  \<^verbatim>\<open>Event\<close> (lines 56-57) declare no delete cascade, so on \<^verbatim>\<open>db.session.delete(event)\<close>
  the unit of work detaches the rows of both collections by setting their \<^verbatim>\<open>event_id\<close>
  to NULL. The column is \<^verbatim>\<open>nullable=False\<close> in both tables (lines 62 and 69): the store
  rejects the update, \<^verbatim>\<open>commit\<close> raises \<^verbatim>\<open>IntegrityError\<close>, which the handler does not
  catch, and the transaction is rolled back. The event row is deleted only when both
  collections are empty.
\<close>

definition delete_event :: "int \<Rightarrow> int \<Rightarrow> db \<Rightarrow> response \<times> db" where
  "delete_event user_id event_id s =
    (case get_event s event_id of
       None \<Rightarrow> ((NotFound, 404), s)
     | Some event \<Rightarrow>
        if e_organizer_id event \<noteq> user_id
        then ((Error ''Only the organizer can delete this event'', 403), s)
        else if event_rsvps s (e_id event) \<noteq> [] \<or> event_comments s (e_id event) \<noteq> []
        then ((Unhandled ''IntegrityError'', 500), s)
        else ((Message ''Event deleted successfully'', 200),
              s\<lparr>events := filter (\<lambda>e. e_id e \<noteq> e_id event) (events s)\<rparr>))"

section \<open>RSVP routes\<close>

text \<open>\<^verbatim>\<open>create_rsvp\<close> (lines 283-306).\<close>

definition create_rsvp :: "datetime \<Rightarrow> int \<Rightarrow> rsvp_body option \<Rightarrow> db \<Rightarrow> response \<times> db" where
  "create_rsvp now user_id data s =
    (case data of
       None \<Rightarrow> ((Error ''Event ID is required'', 400), s)
     | Some d \<Rightarrow>
        (case get (rv_event_id d) of
           None \<Rightarrow> ((Error ''Event ID is required'', 400), s)
         | Some event_id \<Rightarrow>
            if \<not> truthy_int (Some event_id)
            then ((Error ''Event ID is required'', 400), s)
            else
              (case get_event s event_id of
                 None \<Rightarrow> ((NotFound, 404), s)
               | Some event \<Rightarrow>
                  (case rsvp_of s user_id event_id of
                     Some existing_rsvp \<Rightarrow> ((Error ''Already RSVP'd to this event'', 400), s)
                   | None \<Rightarrow>
                      let rsvp = \<lparr>r_id = next_rsvp_id s,
                                  r_user_id = user_id,
                                  r_event_id = event_id,
                                  r_payment_status =
                                    (if e_price event = 0 then ''free'' else ''pending''),
                                  r_created_at = now\<rparr>
                      in ((Message ''RSVP created successfully'', 201),
                          s\<lparr>rsvps := rsvps s @ [rsvp],
                            next_rsvp_id := next_rsvp_id s + 1\<rparr>)))))"

text \<open>\<^verbatim>\<open>cancel_rsvp\<close> (lines 310-320); the DELETE is of the row with the primary key found.\<close>

definition cancel_rsvp :: "int \<Rightarrow> int \<Rightarrow> db \<Rightarrow> response \<times> db" where
  "cancel_rsvp user_id event_id s =
    (case rsvp_of s user_id event_id of
       None \<Rightarrow> ((Error ''RSVP not found'', 404), s)
     | Some rsvp \<Rightarrow>
        ((Message ''RSVP cancelled successfully'', 200),
         s\<lparr>rsvps := filter (\<lambda>r. r_id r \<noteq> r_id rsvp) (rsvps s)\<rparr>))"

section \<open>Comment routes\<close>

definition comment_json :: "db \<Rightarrow> Comment \<Rightarrow> comment_view" where
  "comment_json s comment =
    \<lparr>cv_id = c_id comment,
     cv_content = c_content comment,
     cv_timestamp = c_timestamp comment,
     cv_user_name =
       (case get_user s (c_user_id comment) of Some user \<Rightarrow> u_name user | None \<Rightarrow> ''Unknown''),
     cv_user_id = c_user_id comment\<rparr>"

text \<open>
  \<^verbatim>\<open>get_comments\<close> (lines 339-353). \<^verbatim>\<open>order_by(Comment.timestamp.desc())\<close> is the reverse
  of the ascending sort.
\<close>

definition get_comments :: "int \<Rightarrow> db \<Rightarrow> response" where
  "get_comments event_id s =
    (CommentList (map (comment_json s) (rev (sort_key c_timestamp (event_comments s event_id)))),
     200)"

text \<open>\<^verbatim>\<open>create_comment\<close> (lines 357-384); the event is not looked up.\<close>

definition create_comment ::
  "datetime \<Rightarrow> int \<Rightarrow> int \<Rightarrow> comment_body option \<Rightarrow> db \<Rightarrow> response \<times> db" where
  "create_comment now user_id event_id data s =
    (case data of
       None \<Rightarrow> ((Error ''Comment content is required'', 400), s)
     | Some d \<Rightarrow>
        (case get (cb_content d) of
           None \<Rightarrow> ((Error ''Comment content is required'', 400), s)
         | Some content \<Rightarrow>
            if \<not> truthy_str (Some content)
            then ((Error ''Comment content is required'', 400), s)
            else
              let comment = \<lparr>c_id = next_comment_id s,
                             c_user_id = user_id,
                             c_event_id = event_id,
                             c_content = content,
                             c_timestamp = now\<rparr>;
                  s' = s\<lparr>comments := comments s @ [comment],
                         next_comment_id := next_comment_id s + 1\<rparr>
              in ((CommentAdded ''Comment added successfully'' (comment_json s' comment), 201),
                  s')))"

section \<open>Sequences of RSVP operations\<close>

text \<open>The two requests that write the RSVP table, and a run of them in order.\<close>

datatype rsvp_op =
  Create datetime int "rsvp_body option"
| Cancel int int

fun rsvp_step :: "rsvp_op \<Rightarrow> db \<Rightarrow> db" where
  "rsvp_step (Create now user_id data) s = snd (create_rsvp now user_id data s)"
| "rsvp_step (Cancel user_id event_id) s = snd (cancel_rsvp user_id event_id s)"

fun rsvp_run :: "rsvp_op list \<Rightarrow> db \<Rightarrow> db" where
  "rsvp_run [] s = s"
| "rsvp_run (op # ops) s = rsvp_run ops (rsvp_step op s)"

text \<open>At most one RSVP row for a pair of user and event; no two users with one email.\<close>

definition rsvp_unique :: "db \<Rightarrow> bool" where
  "rsvp_unique s = distinct (map (\<lambda>r. (r_user_id r, r_event_id r)) (rsvps s))"

definition email_unique :: "db \<Rightarrow> bool" where
  "email_unique s = distinct (map u_email (users s))"

text \<open>Primary keys handed out so far lie below the counter of the user table.\<close>

definition user_ids_below :: "db \<Rightarrow> bool" where
  "user_ids_below s = list_all (\<lambda>u. u_id u < next_user_id s) (users s)"

section \<open>A store and requests for the examples\<close>

definition empty_db :: db where
  "empty_db = \<lparr>users = [], events = [], rsvps = [], comments = [],
               next_user_id = 1, next_event_id = 1, next_rsvp_id = 1, next_comment_id = 1\<rparr>"

text \<open>
  Stand-ins for the library functions at the inputs of the examples: a hash that marks
  its input, the check that recomputes it, and a parser that knows two dates.
\<close>

definition sample_hash :: "string \<Rightarrow> string" where
  "sample_hash password = ''#'' @ password"

definition sample_check :: "string \<Rightarrow> string \<Rightarrow> bool" where
  "sample_check pw_hash password = (pw_hash = sample_hash password)"

definition sample_fromisoformat :: "string \<Rightarrow> datetime option" where
  "sample_fromisoformat s =
    (if s = ''2030-05-01T10:00:00+00:00'' then Some 5000
     else if s = ''2030-04-01T10:00:00'' then Some 4000
     else None)"

definition ann :: User where
  "ann = \<lparr>u_id = 1, u_name = ''Ann'', u_email = ''ann@example.org'', u_password = ''#pw-ann'',
          u_role = ''organizer'', u_profile_photo = None, u_created_at = 100\<rparr>"

definition bob :: User where
  "bob = \<lparr>u_id = 2, u_name = ''Bob'', u_email = ''bob@example.org'', u_password = ''#pw-bob'',
          u_role = ''student'', u_profile_photo = None, u_created_at = 200\<rparr>"

definition fair :: Event where
  "fair = \<lparr>e_id = 1, e_title = ''Fair'', e_description = ''Spring fair'', e_date = 5000,
           e_location = ''Hall'', e_price = 0, e_banner = None, e_organizer_id = 1,
           e_created_at = 300\<rparr>"

definition gala :: Event where
  "gala = \<lparr>e_id = 2, e_title = ''Gala'', e_description = ''Dinner'', e_date = 4000,
           e_location = ''Roof'', e_price = 10, e_banner = Some ''gala.png'',
           e_organizer_id = 1, e_created_at = 400\<rparr>"

text \<open>Two users and two events of the first user, and the same with an RSVP of the second.\<close>

definition sample_db :: db where
  "sample_db = \<lparr>users = [ann, bob], events = [fair, gala], rsvps = [], comments = [],
                next_user_id = 3, next_event_id = 3, next_rsvp_id = 1, next_comment_id = 1\<rparr>"

definition bob_rsvp :: RSVP where
  "bob_rsvp = \<lparr>r_id = 1, r_user_id = 2, r_event_id = 1, r_payment_status = ''free'',
               r_created_at = 500\<rparr>"

definition rsvpd_db :: db where
  "rsvpd_db = sample_db\<lparr>rsvps := [bob_rsvp], next_rsvp_id := 2\<rparr>"

definition no_fields :: event_body where
  "no_fields = \<lparr>eb_title = Absent, eb_description = Absent, eb_date = Absent,
                eb_location = Absent, eb_price = Absent, eb_banner = Absent\<rparr>"

text \<open>Three comments on the fair, not in the order of their timestamps, and one on the gala.\<close>

definition chat_db :: db where
  "chat_db = rsvpd_db
     \<lparr>comments :=
        [\<lparr>c_id = 1, c_user_id = 2, c_event_id = 1, c_content = ''When?'', c_timestamp = 700\<rparr>,
         \<lparr>c_id = 2, c_user_id = 1, c_event_id = 1, c_content = ''In May'', c_timestamp = 900\<rparr>,
         \<lparr>c_id = 3, c_user_id = 2, c_event_id = 2, c_content = ''Dress code?'', c_timestamp = 750\<rparr>,
         \<lparr>c_id = 4, c_user_id = 1, c_event_id = 1, c_content = ''See you'', c_timestamp = 800\<rparr>],
      next_comment_id := 5\<rparr>"

definition ann_body :: register_body where
  "ann_body = \<lparr>rb_name = Val ''Ann'', rb_email = Val ''ann@example.org'',
               rb_password = Val ''pw-ann'', rb_role = Val ''organizer''\<rparr>"

definition bob_body :: register_body where
  "bob_body = \<lparr>rb_name = Val ''Bob'', rb_email = Val ''bob@example.org'',
               rb_password = Val ''pw-bob'', rb_role = Absent\<rparr>"

text \<open>A third person who gives the first user's email.\<close>

definition eve_body :: register_body where
  "eve_body = \<lparr>rb_name = Val ''Eve'', rb_email = Val ''ann@example.org'',
               rb_password = Val ''pw-eve'', rb_role = Absent\<rparr>"

definition fair_body :: event_body where
  "fair_body = \<lparr>eb_title = Val ''Fair'', eb_description = Val ''Spring fair'',
                eb_date = Val ''2030-05-01T10:00:00Z'', eb_location = Val ''Hall'',
                eb_price = Absent, eb_banner = Absent\<rparr>"

definition gala_body :: event_body where
  "gala_body = \<lparr>eb_title = Val ''Gala'', eb_description = Val ''Dinner'',
                eb_date = Val ''2030-04-01T10:00:00'', eb_location = Val ''Roof'',
                eb_price = Val 10, eb_banner = Val ''gala.png''\<rparr>"

section \<open>The example store is one the handlers produce\<close>

lemma sample_db_reachable:
  "sample_db =
     snd (create_event sample_fromisoformat 400 1 (Some gala_body)
     (snd (create_event sample_fromisoformat 300 1 (Some fair_body)
     (snd (register sample_hash 200 (Some bob_body)
     (snd (register sample_hash 100 (Some ann_body) empty_db)))))))"
  by (simp add: sample_db_def empty_db_def register_def create_event_def user_by_email_def
      get_user_def sample_hash_def sample_fromisoformat_def parse_date_def replace_Z_def
      ann_def bob_def fair_def gala_def ann_body_def bob_body_def fair_body_def gala_body_def
      Let_def)

lemma rsvpd_db_reachable:
  "rsvpd_db = snd (create_rsvp 500 2 (Some \<lparr>rv_event_id = Val 1\<rparr>) sample_db)"
  by (simp add: rsvpd_db_def sample_db_def create_rsvp_def get_event_def rsvp_of_def
      fair_def gala_def bob_rsvp_def Let_def)

section \<open>Payment status of a new RSVP\<close>

text \<open>
  C2: whenever \<^verbatim>\<open>POST /api/rsvp\<close> succeeds (status 201), the request named an existing event
  and exactly one RSVP row was added, for the caller and that event; its payment status is
  \<open>free\<close> if and only if the price of the event is 0 at that moment, \<open>pending\<close> if and only
  if it is not, and never anything else.
\<close>

theorem create_rsvp_payment_status:
  assumes "snd (fst (create_rsvp now user_id data s)) = 201"
  shows "\<exists>event_id event rsvp.
           data = Some \<lparr>rv_event_id = Val event_id\<rparr> \<and>
           get_event s event_id = Some event \<and>
           rsvps (snd (create_rsvp now user_id data s)) = rsvps s @ [rsvp] \<and>
           r_user_id rsvp = user_id \<and> r_event_id rsvp = event_id \<and>
           (r_payment_status rsvp = ''free'' \<longleftrightarrow> e_price event = 0) \<and>
           (r_payment_status rsvp = ''pending'' \<longleftrightarrow> e_price event \<noteq> 0) \<and>
           (r_payment_status rsvp = ''free'' \<or> r_payment_status rsvp = ''pending'')"
proof (cases data)
  case None
  with assms show ?thesis by (simp add: create_rsvp_def)
next
  case (Some d)
  obtain f where d: "d = \<lparr>rv_event_id = f\<rparr>" by (cases d) simp
  show ?thesis
  proof (cases f)
    case (Val event_id)
    with assms Some d show ?thesis
      by (auto simp: create_rsvp_def Let_def split: option.splits if_splits)
  qed (use assms Some d in \<open>simp_all add: create_rsvp_def\<close>)
qed

text \<open>The free event and the priced event of the example store, both answered with 201.\<close>

theorem create_rsvp_payment_status_witness:
  "snd (fst (create_rsvp 500 2 (Some \<lparr>rv_event_id = Val 1\<rparr>) sample_db)) = 201
   \<and> snd (fst (create_rsvp 600 2 (Some \<lparr>rv_event_id = Val 2\<rparr>) sample_db)) = 201
   \<and> (\<exists>rsvp. rsvps (snd (create_rsvp 500 2 (Some \<lparr>rv_event_id = Val 1\<rparr>) sample_db)) = [rsvp]
         \<and> r_payment_status rsvp = ''free'')
   \<and> (\<exists>rsvp. rsvps (snd (create_rsvp 600 2 (Some \<lparr>rv_event_id = Val 2\<rparr>) sample_db)) = [rsvp]
         \<and> r_payment_status rsvp = ''pending'')"
proof -
  have e1: "get_event sample_db 1 = Some fair" and e2: "get_event sample_db 2 = Some gala"
    by (simp_all add: get_event_def sample_db_def fair_def gala_def)
  have p: "e_price fair = 0" "e_price gala \<noteq> 0" "rsvps sample_db = []"
    by (simp_all add: fair_def gala_def sample_db_def)
  have h1: "snd (fst (create_rsvp 500 2 (Some \<lparr>rv_event_id = Val 1\<rparr>) sample_db)) = 201"
    by (simp add: create_rsvp_def e1 rsvp_of_def p Let_def)
  have h2: "snd (fst (create_rsvp 600 2 (Some \<lparr>rv_event_id = Val 2\<rparr>) sample_db)) = 201"
    by (simp add: create_rsvp_def e2 rsvp_of_def p Let_def)
  from create_rsvp_payment_status [OF h1] create_rsvp_payment_status [OF h2] h1 h2
  show ?thesis using e1 e2 p by auto
qed

section \<open>One RSVP for a user and an event\<close>

lemma find_Some_ex: "x \<in> set xs \<Longrightarrow> P x \<Longrightarrow> \<exists>y. find P xs = Some y"
  by (cases "find P xs") (auto simp: find_None_iff)

lemma distinct_key_at_most_one:
  "distinct (map f xs) \<Longrightarrow> length (filter (\<lambda>x. f x = k) xs) \<le> 1"
proof (induction xs)
  case Nil
  then show ?case by simp
next
  case (Cons x xs)
  show ?case
  proof (cases "f x = k")
    case True
    with Cons.prems have "k \<notin> f ` set xs" by auto
    then have "filter (\<lambda>x. f x = k) xs = []"
      by (auto simp: filter_empty_conv)
    with True show ?thesis by simp
  next
    case False
    with Cons show ?thesis by simp
  qed
qed

lemma create_rsvp_rsvps:
  "rsvps (snd (create_rsvp now user_id data s)) = rsvps s
   \<or> (\<exists>event_id rsvp. rsvp_of s user_id event_id = None
         \<and> r_user_id rsvp = user_id \<and> r_event_id rsvp = event_id
         \<and> rsvps (snd (create_rsvp now user_id data s)) = rsvps s @ [rsvp])"
  by (simp add: create_rsvp_def Let_def split: option.splits)

lemma create_rsvp_unique: "rsvp_unique s \<Longrightarrow> rsvp_unique (snd (create_rsvp now user_id data s))"
proof -
  assume u: "rsvp_unique s"
  from create_rsvp_rsvps [of now user_id data s] show ?thesis
  proof (elim disjE exE conjE)
    assume "rsvps (snd (create_rsvp now user_id data s)) = rsvps s"
    with u show ?thesis by (simp add: rsvp_unique_def)
  next
    fix event_id rsvp
    assume n: "rsvp_of s user_id event_id = None"
      and r: "r_user_id rsvp = user_id" "r_event_id rsvp = event_id"
      and a: "rsvps (snd (create_rsvp now user_id data s)) = rsvps s @ [rsvp]"
    from n have "(user_id, event_id) \<notin> (\<lambda>r. (r_user_id r, r_event_id r)) ` set (rsvps s)"
      by (auto simp: rsvp_of_def find_None_iff)
    with u r a show ?thesis by (simp add: rsvp_unique_def)
  qed
qed

lemma cancel_rsvp_unique: "rsvp_unique s \<Longrightarrow> rsvp_unique (snd (cancel_rsvp user_id event_id s))"
  by (simp add: cancel_rsvp_def rsvp_unique_def distinct_map_filter split: option.splits)

lemma rsvp_step_unique: "rsvp_unique s \<Longrightarrow> rsvp_unique (rsvp_step op s)"
  by (cases op) (simp_all add: create_rsvp_unique cancel_rsvp_unique)

lemma rsvp_run_unique: "rsvp_unique s \<Longrightarrow> rsvp_unique (rsvp_run ops s)"
  by (induction ops arbitrary: s) (simp_all add: rsvp_step_unique)

lemma create_rsvp_duplicate:
  assumes "get_event s event_id = Some event" "event_id \<noteq> 0"
    "r \<in> set (rsvps s)" "r_user_id r = user_id" "r_event_id r = event_id"
  shows "create_rsvp now user_id (Some \<lparr>rv_event_id = Val event_id\<rparr>) s
           = ((Error ''Already RSVP'd to this event'', 400), s)"
proof -
  from assms(3-5) obtain y where "rsvp_of s user_id event_id = Some y"
    unfolding rsvp_of_def
    using find_Some_ex [of r "rsvps s" "\<lambda>r. r_user_id r = user_id \<and> r_event_id r = event_id"]
    by auto
  with assms(1,2) show ?thesis by (simp add: create_rsvp_def)
qed

text \<open>
  C1: a \<^verbatim>\<open>POST /api/rsvp\<close> of a user for an existing event for which the user already has an
  RSVP row is answered with the duplicate error (status 400) and the store is unchanged
  (the event id is not 0, which the handler reads as a missing id);
  and from a store with at most one RSVP row for every pair of user and event, every
  sequence of create and cancel requests leads to such a store again: for every user \<open>u\<close>
  and event \<open>e\<close>, at most one row of the RSVP table is for \<open>(u, e)\<close>.
\<close>

theorem rsvp_pair_unique:
  "(get_event s event_id = Some event \<and> event_id \<noteq> 0 \<and> r \<in> set (rsvps s)
      \<and> r_user_id r = user_id \<and> r_event_id r = event_id
     \<longrightarrow> create_rsvp now user_id (Some \<lparr>rv_event_id = Val event_id\<rparr>) s
           = ((Error ''Already RSVP'd to this event'', 400), s))
   \<and> (rsvp_unique s
     \<longrightarrow> rsvp_unique (rsvp_run ops s)
       \<and> length (filter (\<lambda>r. r_user_id r = u \<and> r_event_id r = e) (rsvps (rsvp_run ops s))) \<le> 1)"
proof (intro conjI impI)
  assume "get_event s event_id = Some event \<and> event_id \<noteq> 0 \<and> r \<in> set (rsvps s)
      \<and> r_user_id r = user_id \<and> r_event_id r = event_id"
  then show "create_rsvp now user_id (Some \<lparr>rv_event_id = Val event_id\<rparr>) s
           = ((Error ''Already RSVP'd to this event'', 400), s)"
    using create_rsvp_duplicate by blast
next
  assume "rsvp_unique s"
  then show "rsvp_unique (rsvp_run ops s)" by (rule rsvp_run_unique)
next
  assume "rsvp_unique s"
  then have "distinct (map (\<lambda>r. (r_user_id r, r_event_id r)) (rsvps (rsvp_run ops s)))"
    using rsvp_run_unique [of s ops] by (simp add: rsvp_unique_def)
  from distinct_key_at_most_one [OF this, of "(u, e)"]
  show "length (filter (\<lambda>r. r_user_id r = u \<and> r_event_id r = e) (rsvps (rsvp_run ops s))) \<le> 1"
    by simp
qed

text \<open>The second user of the example store creates, cancels and creates again.\<close>

theorem rsvp_pair_unique_witness:
  "create_rsvp 600 2 (Some \<lparr>rv_event_id = Val 1\<rparr>) rsvpd_db
     = ((Error ''Already RSVP'd to this event'', 400), rsvpd_db)
   \<and> rsvp_unique rsvpd_db
   \<and> rsvp_unique (rsvp_run [Create 600 2 (Some \<lparr>rv_event_id = Val 1\<rparr>), Cancel 2 1,
                             Create 700 2 (Some \<lparr>rv_event_id = Val 1\<rparr>),
                             Create 800 2 (Some \<lparr>rv_event_id = Val 1\<rparr>)] rsvpd_db)
   \<and> length (filter (\<lambda>r. r_user_id r = 2 \<and> r_event_id r = 1)
        (rsvps (rsvp_run [Create 600 2 (Some \<lparr>rv_event_id = Val 1\<rparr>), Cancel 2 1,
                          Create 700 2 (Some \<lparr>rv_event_id = Val 1\<rparr>),
                          Create 800 2 (Some \<lparr>rv_event_id = Val 1\<rparr>)] rsvpd_db))) \<le> 1"
proof -
  have e: "get_event rsvpd_db 1 = Some fair"
    by (simp add: get_event_def rsvpd_db_def sample_db_def fair_def)
  have r: "bob_rsvp \<in> set (rsvps rsvpd_db)" "r_user_id bob_rsvp = 2" "r_event_id bob_rsvp = 1"
    by (simp_all add: rsvpd_db_def bob_rsvp_def)
  have u: "rsvp_unique rsvpd_db"
    by (simp add: rsvp_unique_def rsvpd_db_def)
  note t = rsvp_pair_unique [of rsvpd_db 1 fair bob_rsvp 2 600
      "[Create 600 2 (Some \<lparr>rv_event_id = Val 1\<rparr>), Cancel 2 1,
        Create 700 2 (Some \<lparr>rv_event_id = Val 1\<rparr>),
        Create 800 2 (Some \<lparr>rv_event_id = Val 1\<rparr>)]" 2 1]
  have d: "create_rsvp 600 2 (Some \<lparr>rv_event_id = Val 1\<rparr>) rsvpd_db
     = ((Error ''Already RSVP'd to this event'', 400), rsvpd_db)"
    using t [THEN conjunct1] e r by simp
  note k = t [THEN conjunct2, THEN mp, OF u]
  show ?thesis
    by (intro conjI) (rule d, rule u, rule k [THEN conjunct1], rule k [THEN conjunct2])
qed

section \<open>Only the organizer updates or deletes an event\<close>

text \<open>
  C3: for an existing event and a caller who is not its organizer, \<^verbatim>\<open>update_event\<close> and
  \<^verbatim>\<open>delete_event\<close> answer with the forbidden error (status 403) and leave the store, hence the
  event, its RSVPs and its comments, unchanged; and either of them succeeds (status 200)
  only for the caller whose id is the event's \<^verbatim>\<open>organizer_id\<close>.
\<close>

theorem organizer_guard:
  assumes "get_event s event_id = Some event"
  shows "(e_organizer_id event \<noteq> user_id \<longrightarrow>
            update_event fromisoformat user_id event_id data s
              = ((Error ''Only the organizer can update this event'', 403), s)
          \<and> delete_event user_id event_id s
              = ((Error ''Only the organizer can delete this event'', 403), s))
       \<and> (snd (fst (update_event fromisoformat user_id event_id data s)) = 200
            \<longrightarrow> e_organizer_id event = user_id)
       \<and> (snd (fst (delete_event user_id event_id s)) = 200
            \<longrightarrow> e_organizer_id event = user_id)"
  using assms by (auto simp: update_event_def delete_event_def split: option.splits)

text \<open>The student is refused on the fair; its organizer updates it and deletes the gala.\<close>

theorem organizer_guard_witness:
  "update_event sample_fromisoformat 2 1 (Some (no_fields\<lparr>eb_title := Val ''Mine''\<rparr>)) rsvpd_db
     = ((Error ''Only the organizer can update this event'', 403), rsvpd_db)
   \<and> delete_event 2 1 rsvpd_db
     = ((Error ''Only the organizer can delete this event'', 403), rsvpd_db)
   \<and> snd (fst (update_event sample_fromisoformat 1 1
                 (Some (no_fields\<lparr>eb_title := Val ''Fete''\<rparr>)) rsvpd_db)) = 200
   \<and> snd (fst (delete_event 1 2 rsvpd_db)) = 200
   \<and> e_organizer_id fair = 1 \<and> e_organizer_id gala = 1"
proof -
  have e1: "get_event rsvpd_db 1 = Some fair" and e2: "get_event rsvpd_db 2 = Some gala"
    by (simp_all add: get_event_def rsvpd_db_def sample_db_def fair_def gala_def)
  have o: "e_organizer_id fair \<noteq> 2" by (simp add: fair_def)
  have u: "snd (fst (update_event sample_fromisoformat 1 1
                 (Some (no_fields\<lparr>eb_title := Val ''Fete''\<rparr>)) rsvpd_db)) = 200"
    by (simp add: update_event_def e1 fair_def no_fields_def patch_date_def)
  have n: "event_rsvps rsvpd_db 2 = []" "event_comments rsvpd_db 2 = []"
    by (simp_all add: event_rsvps_def event_comments_def rsvpd_db_def sample_db_def bob_rsvp_def)
  have d: "snd (fst (delete_event 1 2 rsvpd_db)) = 200"
    by (simp add: delete_event_def e2 gala_def n)
  from organizer_guard [OF e1, of 2 sample_fromisoformat
      "Some (no_fields\<lparr>eb_title := Val ''Mine''\<rparr>)"]
    organizer_guard [OF e1, of 1 sample_fromisoformat
      "Some (no_fields\<lparr>eb_title := Val ''Fete''\<rparr>)"]
    organizer_guard [OF e2, of 1] o u d
  show ?thesis by simp
qed

section \<open>Login failures are indistinguishable\<close>

text \<open>
  C8: for a login request with a non-empty email and password, the response is the same
  (status 401, the same error body) when no user has the email as when the user exists and
  the password does not match the stored hash; the store is unchanged in both cases.
\<close>

theorem login_failure_uniform:
  assumes "get (lb_email d) = Some email" "get (lb_password d) = Some password"
    and "email \<noteq> []" "password \<noteq> []"
    and "user_by_email s1 email = None"
    and "user_by_email s2 email = Some user"
      "\<not> check_password_hash (u_password user) password"
  shows "login check_password_hash (Some d) s1 = ((Error ''Invalid email or password'', 401), s1)
       \<and> login check_password_hash (Some d) s2 = ((Error ''Invalid email or password'', 401), s2)
       \<and> fst (login check_password_hash (Some d) s1) = fst (login check_password_hash (Some d) s2)"
  using assms by (simp add: login_def)

text \<open>An unknown email on the empty store, and a wrong password for a known one.\<close>

theorem login_failure_uniform_witness:
  "user_by_email empty_db ''ann@example.org'' = None
   \<and> user_by_email sample_db ''ann@example.org'' = Some ann
   \<and> \<not> sample_check (u_password ann) ''guess''
   \<and> fst (login sample_check
            (Some \<lparr>lb_email = Val ''ann@example.org'', lb_password = Val ''guess''\<rparr>) empty_db)
     = fst (login sample_check
            (Some \<lparr>lb_email = Val ''ann@example.org'', lb_password = Val ''guess''\<rparr>) sample_db)
   \<and> fst (login sample_check
            (Some \<lparr>lb_email = Val ''ann@example.org'', lb_password = Val ''guess''\<rparr>) sample_db)
     = (Error ''Invalid email or password'', 401)
   \<and> snd (fst (login sample_check
            (Some \<lparr>lb_email = Val ''ann@example.org'', lb_password = Val ''pw-ann''\<rparr>) sample_db))
     = 200"
proof -
  have a: "user_by_email empty_db ''ann@example.org'' = None"
    by (simp add: user_by_email_def empty_db_def)
  have b: "user_by_email sample_db ''ann@example.org'' = Some ann"
    by (simp add: user_by_email_def sample_db_def ann_def)
  have c: "\<not> sample_check (u_password ann) ''guess''"
    by (simp add: sample_check_def sample_hash_def ann_def)
  have ok: "snd (fst (login sample_check
            (Some \<lparr>lb_email = Val ''ann@example.org'', lb_password = Val ''pw-ann''\<rparr>) sample_db))
     = 200"
    by (simp add: login_def b sample_check_def sample_hash_def ann_def)
  from login_failure_uniform [of "\<lparr>lb_email = Val ''ann@example.org'', lb_password = Val ''guess''\<rparr>"
      "''ann@example.org''" "''guess''" empty_db sample_db ann sample_check] a b c ok
  show ?thesis by simp
qed

section \<open>Registration rejects a known email\<close>

lemma truthy_str_iff: "truthy_str x \<longleftrightarrow> (\<exists>v. x = Some v \<and> v \<noteq> [])"
  by (cases x) auto

lemma register_store:
  "snd (fst (register generate_password_hash now data s)) = 400
     \<and> snd (register generate_password_hash now data s) = s
   \<or> (\<exists>d email user. data = Some d \<and> get (rb_email d) = Some email
         \<and> user_by_email s email = None \<and> u_email user = email
         \<and> snd (fst (register generate_password_hash now data s)) = 201
         \<and> users (snd (register generate_password_hash now data s)) = users s @ [user])"
  by (simp add: register_def Let_def split: option.splits)

lemma register_email_unique:
  assumes "email_unique s"
  shows "email_unique (snd (register generate_password_hash now data s))"
  using register_store [of generate_password_hash now data s]
proof (elim disjE exE conjE)
  assume "snd (register generate_password_hash now data s) = s"
  with assms show ?thesis by simp
next
  fix d email user
  assume n: "user_by_email s email = None" and e: "u_email user = email"
    and a: "users (snd (register generate_password_hash now data s)) = users s @ [user]"
  from n have "email \<notin> u_email ` set (users s)"
    by (auto simp: user_by_email_def find_None_iff)
  with assms e a show ?thesis by (simp add: email_unique_def)
qed

lemma register_existing_email:
  assumes "u \<in> set (users s)" "get (rb_email d) = Some (u_email u)"
  shows "snd (fst (register generate_password_hash now (Some d) s)) = 400
       \<and> snd (register generate_password_hash now (Some d) s) = s"
    and "truthy_str (get (rb_email d)) \<Longrightarrow> truthy_str (get (rb_password d))
         \<Longrightarrow> truthy_str (get (rb_name d))
         \<Longrightarrow> register generate_password_hash now (Some d) s
               = ((Error ''Email already registered'', 400), s)"
proof -
  from assms(1) obtain y where y: "user_by_email s (u_email u) = Some y"
    unfolding user_by_email_def
    using find_Some_ex [of u "users s" "\<lambda>v. u_email v = u_email u"] by auto
  with assms(2) show "snd (fst (register generate_password_hash now (Some d) s)) = 400
       \<and> snd (register generate_password_hash now (Some d) s) = s"
    by (simp add: register_def split: option.splits)
  assume "truthy_str (get (rb_email d))" "truthy_str (get (rb_password d))"
    "truthy_str (get (rb_name d))"
  with assms(2) y show "register generate_password_hash now (Some d) s
               = ((Error ''Email already registered'', 400), s)"
    by (auto simp: register_def truthy_str_iff)
qed

text \<open>
  C7: a registration request that gives the email of an existing user is answered with
  status 400 and creates no user (the store is unchanged); with the three required fields
  present the answer is the conflict error \<open>Email already registered\<close>. Hence after a
  successful registration, a second one with the same email fails with status 400 and
  creates no user, and a user table without two rows of one email stays so under
  \<^verbatim>\<open>register\<close>.
\<close>

theorem register_duplicate_email:
  "(u \<in> set (users s) \<and> get (rb_email d) = Some (u_email u)
      \<longrightarrow> snd (fst (register generate_password_hash now (Some d) s)) = 400
        \<and> snd (register generate_password_hash now (Some d) s) = s)
   \<and> (u \<in> set (users s) \<and> get (rb_email d) = Some (u_email u)
       \<and> truthy_str (get (rb_email d)) \<and> truthy_str (get (rb_password d))
       \<and> truthy_str (get (rb_name d))
      \<longrightarrow> register generate_password_hash now (Some d) s
            = ((Error ''Email already registered'', 400), s))
   \<and> (snd (fst (register generate_password_hash now (Some d) s)) = 201
       \<and> rb_email d' = rb_email d
      \<longrightarrow> snd (fst (register generate_password_hash' now' (Some d')
                       (snd (register generate_password_hash now (Some d) s)))) = 400
        \<and> snd (register generate_password_hash' now' (Some d')
                 (snd (register generate_password_hash now (Some d) s)))
            = snd (register generate_password_hash now (Some d) s))
   \<and> (email_unique s \<longrightarrow> email_unique (snd (register generate_password_hash now data s)))"
proof -
  have 1: "u \<in> set (users s) \<and> get (rb_email d) = Some (u_email u)
      \<longrightarrow> snd (fst (register generate_password_hash now (Some d) s)) = 400
        \<and> snd (register generate_password_hash now (Some d) s) = s"
    using register_existing_email(1) by blast
  have 2: "u \<in> set (users s) \<and> get (rb_email d) = Some (u_email u)
       \<and> truthy_str (get (rb_email d)) \<and> truthy_str (get (rb_password d))
       \<and> truthy_str (get (rb_name d))
      \<longrightarrow> register generate_password_hash now (Some d) s
            = ((Error ''Email already registered'', 400), s)"
    using register_existing_email(2) by blast
  let ?s' = "snd (register generate_password_hash now (Some d) s)"
  have 3: "snd (fst (register generate_password_hash now (Some d) s)) = 201
       \<and> rb_email d' = rb_email d
      \<longrightarrow> snd (fst (register generate_password_hash' now' (Some d') ?s')) = 400
        \<and> snd (register generate_password_hash' now' (Some d') ?s') = ?s'"
  proof
    assume a: "snd (fst (register generate_password_hash now (Some d) s)) = 201
       \<and> rb_email d' = rb_email d"
    have "\<exists>user. user \<in> set (users ?s') \<and> get (rb_email d') = Some (u_email user)"
      using register_store [of generate_password_hash now "Some d" s] a
    proof (elim disjE exE conjE)
      assume "snd (fst (register generate_password_hash now (Some d) s)) = 400"
      with a show ?thesis by simp
    next
      fix d0 email user
      assume "Some d = Some d0" "get (rb_email d0) = Some email" "u_email user = email"
        "users ?s' = users s @ [user]" "rb_email d' = rb_email d"
      then have "user \<in> set (users ?s') \<and> get (rb_email d') = Some (u_email user)"
        by simp
      then show ?thesis ..
    qed
    then obtain user where "user \<in> set (users ?s')" "get (rb_email d') = Some (u_email user)"
      by blast
    then show "snd (fst (register generate_password_hash' now' (Some d') ?s')) = 400
        \<and> snd (register generate_password_hash' now' (Some d') ?s') = ?s'"
      by (rule register_existing_email(1))
  qed
  have 4: "email_unique s \<longrightarrow> email_unique (snd (register generate_password_hash now data s))"
    using register_email_unique by blast
  show ?thesis by (rule conjI [OF 1 conjI [OF 2 conjI [OF 3 4]]])
qed

text \<open>A third person registers with the first user's email, on the example store and twice
  in a row on the empty store.\<close>

theorem register_duplicate_email_witness:
  "ann \<in> set (users sample_db) \<and> get (rb_email eve_body) = Some (u_email ann)
   \<and> register sample_hash 900 (Some eve_body) sample_db
       = ((Error ''Email already registered'', 400), sample_db)
   \<and> snd (fst (register sample_hash 100 (Some ann_body) empty_db)) = 201
   \<and> snd (fst (register sample_hash 900 (Some eve_body)
                 (snd (register sample_hash 100 (Some ann_body) empty_db)))) = 400
   \<and> email_unique sample_db
   \<and> email_unique (snd (register sample_hash 900 (Some eve_body) sample_db))"
proof -
  have a: "ann \<in> set (users sample_db)" "get (rb_email eve_body) = Some (u_email ann)"
    "truthy_str (get (rb_email eve_body))" "truthy_str (get (rb_password eve_body))"
    "truthy_str (get (rb_name eve_body))"
    by (simp_all add: sample_db_def eve_body_def ann_def)
  have b: "snd (fst (register sample_hash 100 (Some ann_body) empty_db)) = 201"
    "rb_email eve_body = rb_email ann_body"
    by (simp_all add: register_def ann_body_def eve_body_def empty_db_def user_by_email_def
        Let_def)
  have c: "email_unique sample_db"
    by (simp add: email_unique_def sample_db_def ann_def bob_def)
  note t = register_duplicate_email [where u = ann and s = sample_db and d = eve_body
      and generate_password_hash = sample_hash and now = 900 and data = "Some eve_body"]
  note t2 = register_duplicate_email [where s = empty_db and d = ann_body
      and generate_password_hash = sample_hash and now = 100 and d' = eve_body
      and generate_password_hash' = sample_hash and now' = 900]
  have 1: "register sample_hash 900 (Some eve_body) sample_db
       = ((Error ''Email already registered'', 400), sample_db)"
    using t [THEN conjunct2, THEN conjunct1] a by blast
  have 2: "snd (fst (register sample_hash 900 (Some eve_body)
                 (snd (register sample_hash 100 (Some ann_body) empty_db)))) = 400"
    using t2 [THEN conjunct2, THEN conjunct2, THEN conjunct1] b by blast
  have 3: "email_unique (snd (register sample_hash 900 (Some eve_body) sample_db))"
    using t [THEN conjunct2, THEN conjunct2, THEN conjunct2] c by blast
  from a(1,2) 1 b(1) 2 c 3 show ?thesis by blast
qed

section \<open>The role given at registration\<close>

lemma find_append_last:
  "find P (xs @ [x]) = (case find P xs of None \<Rightarrow> if P x then Some x else None | Some y \<Rightarrow> Some y)"
  by (induction xs) simp_all

lemma get_user_new:
  assumes "user_ids_below s" "u_id user = next_user_id s"
  shows "get_user (s\<lparr>users := users s @ [user], next_user_id := n\<rparr>) (next_user_id s) = Some user"
proof -
  from assms(1) have "find (\<lambda>u. u_id u = next_user_id s) (users s) = None"
    by (auto simp: user_ids_below_def find_None_iff list_all_iff)
  with assms(2) show ?thesis by (simp add: get_user_def find_append_last)
qed

lemma create_event_organizer_not_403:
  assumes "get_user s user_id = Some user" "u_role user = ''organizer''"
  shows "snd (fst (create_event fromisoformat now user_id data s)) \<noteq> 403"
  using assms by (simp add: create_event_def Let_def split: option.splits)

text \<open>
  A registration whose body holds \<open>null\<close> under the key \<open>role\<close>: \<^verbatim>\<open>data.get('role', 'student')\<close>
  is \<open>None\<close>, the column default applies, and the stored role is \<open>student\<close> although the key
  is present.
\<close>

theorem register_role_verbatim_counterexample:
  "rb_role (ann_body\<lparr>rb_role := Null\<rparr>) = Null
   \<and> snd (fst (register sample_hash 100 (Some (ann_body\<lparr>rb_role := Null\<rparr>)) empty_db)) = 201
   \<and> map u_role (users (snd (register sample_hash 100 (Some (ann_body\<lparr>rb_role := Null\<rparr>))
                                 empty_db)))
       = [''student'']"
  by (simp add: register_def user_by_email_def empty_db_def ann_body_def Let_def)

text \<open>
  C10 (amended): a registration with the three required fields and a fresh email succeeds
  (status 201) and stores the \<open>role\<close> of the body as it is whenever it is present as a string,
  whatever the string, with no check of it and no caller identity involved; the role is
  \<open>student\<close> when the key is absent or holds \<open>null\<close>. Consequently, in a store whose user ids
  lie below the counter of the user table, the account created with the role \<open>organizer\<close>
  is never refused with 403 by the organizer guard of \<^verbatim>\<open>create_event\<close>.
\<close>

theorem register_role_verbatim:
  assumes "get (rb_email d) = Some email" "get (rb_password d) = Some password"
    "get (rb_name d) = Some name" "email \<noteq> []" "password \<noteq> []" "name \<noteq> []"
    and "user_by_email s email = None"
  shows "\<exists>user.
      register generate_password_hash now (Some d) s
        = ((Authenticated ''User registered successfully'' (next_user_id s) (user_json user), 201),
           s\<lparr>users := users s @ [user], next_user_id := next_user_id s + 1\<rparr>)
      \<and> u_id user = next_user_id s
      \<and> (\<forall>role. rb_role d = Val role \<longrightarrow> u_role user = role)
      \<and> (rb_role d = Absent \<longrightarrow> u_role user = ''student'')
      \<and> (rb_role d = Null \<longrightarrow> u_role user = ''student'')
      \<and> (user_ids_below s \<and> rb_role d = Val ''organizer''
           \<longrightarrow> (\<forall>fromisoformat now' data.
                  snd (fst (create_event fromisoformat now' (next_user_id s) data
                         (snd (register generate_password_hash now (Some d) s)))) \<noteq> 403))"
proof -
  define user where "user = \<lparr>u_id = next_user_id s, u_name = name, u_email = email,
      u_password = generate_password_hash password,
      u_role = column_default (get_default (rb_role d) ''student'') ''student'',
      u_profile_photo = None, u_created_at = now\<rparr>"
  let ?s' = "s\<lparr>users := users s @ [user], next_user_id := next_user_id s + 1\<rparr>"
  have r: "register generate_password_hash now (Some d) s
        = ((Authenticated ''User registered successfully'' (next_user_id s) (user_json user), 201),
           ?s')"
    using assms by (simp add: register_def Let_def user_def)
  have i: "u_id user = next_user_id s" by (simp add: user_def)
  have v: "\<forall>role. rb_role d = Val role \<longrightarrow> u_role user = role"
    by (simp add: user_def)
  have a: "rb_role d = Absent \<longrightarrow> u_role user = ''student''"
    by (simp add: user_def)
  have n: "rb_role d = Null \<longrightarrow> u_role user = ''student''"
    by (simp add: user_def)
  have c: "user_ids_below s \<and> rb_role d = Val ''organizer''
           \<longrightarrow> (\<forall>fromisoformat now' data.
                  snd (fst (create_event fromisoformat now' (next_user_id s) data
                         (snd (register generate_password_hash now (Some d) s)))) \<noteq> 403)"
  proof (intro impI allI)
    fix fromisoformat now' data
    assume h: "user_ids_below s \<and> rb_role d = Val ''organizer''"
    then have g: "get_user ?s' (next_user_id s) = Some user"
      using get_user_new [OF _ i] by blast
    from h v have "u_role user = ''organizer''" by blast
    from create_event_organizer_not_403 [OF g this] r
    show "snd (fst (create_event fromisoformat now' (next_user_id s) data
                         (snd (register generate_password_hash now (Some d) s)))) \<noteq> 403"
      by simp
  qed
  from r i v a n c show ?thesis by blast
qed

text \<open>On the empty store: an account registered as organizer creates an event, an account
  registered without a role is refused, and a \<open>null\<close> role is stored as \<open>student\<close>.\<close>

theorem register_role_verbatim_witness:
  "snd (fst (register sample_hash 100 (Some ann_body) empty_db)) = 201
   \<and> map u_role (users (snd (register sample_hash 100 (Some ann_body) empty_db)))
       = [''organizer'']
   \<and> snd (fst (create_event sample_fromisoformat 300 1 (Some fair_body)
                 (snd (register sample_hash 100 (Some ann_body) empty_db)))) \<noteq> 403
   \<and> snd (fst (create_event sample_fromisoformat 300 1 (Some fair_body)
                 (snd (register sample_hash 100 (Some ann_body) empty_db)))) = 201
   \<and> map u_role (users (snd (register sample_hash 200 (Some bob_body) empty_db)))
       = [''student'']
   \<and> snd (fst (create_event sample_fromisoformat 300 1 (Some fair_body)
                 (snd (register sample_hash 200 (Some bob_body) empty_db)))) = 403
   \<and> map u_role (users (snd (register sample_hash 100 (Some (ann_body\<lparr>rb_role := Null\<rparr>))
                                 empty_db)))
       = [''student'']"
proof -
  have h: "get (rb_email ann_body) = Some ''ann@example.org''"
    "get (rb_password ann_body) = Some ''pw-ann''" "get (rb_name ann_body) = Some ''Ann''"
    "''ann@example.org'' \<noteq> []" "''pw-ann'' \<noteq> []" "''Ann'' \<noteq> []"
    "user_by_email empty_db ''ann@example.org'' = None"
    by (simp_all add: ann_body_def user_by_email_def empty_db_def)
  have hb: "get (rb_email bob_body) = Some ''bob@example.org''"
    "get (rb_password bob_body) = Some ''pw-bob''" "get (rb_name bob_body) = Some ''Bob''"
    "''bob@example.org'' \<noteq> []" "''pw-bob'' \<noteq> []" "''Bob'' \<noteq> []"
    "user_by_email empty_db ''bob@example.org'' = None"
    by (simp_all add: bob_body_def user_by_email_def empty_db_def)
  have hn: "get (rb_email (ann_body\<lparr>rb_role := Null\<rparr>)) = Some ''ann@example.org''"
    "get (rb_password (ann_body\<lparr>rb_role := Null\<rparr>)) = Some ''pw-ann''"
    "get (rb_name (ann_body\<lparr>rb_role := Null\<rparr>)) = Some ''Ann''"
    by (simp_all add: ann_body_def)
  have b: "user_ids_below empty_db" "rb_role ann_body = Val ''organizer''"
    "next_user_id empty_db = 1" "users empty_db = []" "rb_role bob_body = Absent"
    "rb_role (ann_body\<lparr>rb_role := Null\<rparr>) = Null"
    by (simp_all add: user_ids_below_def empty_db_def ann_body_def bob_body_def)
  from register_role_verbatim [OF h, of sample_hash 100] obtain user where
    r: "register sample_hash 100 (Some ann_body) empty_db
        = ((Authenticated ''User registered successfully'' (next_user_id empty_db)
              (user_json user), 201),
           empty_db\<lparr>users := users empty_db @ [user],
                     next_user_id := next_user_id empty_db + 1\<rparr>)"
    and v: "\<forall>role. rb_role ann_body = Val role \<longrightarrow> u_role user = role"
    and c: "user_ids_below empty_db \<and> rb_role ann_body = Val ''organizer''
           \<longrightarrow> (\<forall>fromisoformat now' data.
                  snd (fst (create_event fromisoformat now' (next_user_id empty_db) data
                         (snd (register sample_hash 100 (Some ann_body) empty_db)))) \<noteq> 403)"
    by blast
  from register_role_verbatim [OF hb, of sample_hash 200] obtain user2 where
    r2: "register sample_hash 200 (Some bob_body) empty_db
        = ((Authenticated ''User registered successfully'' (next_user_id empty_db)
              (user_json user2), 201),
           empty_db\<lparr>users := users empty_db @ [user2],
                     next_user_id := next_user_id empty_db + 1\<rparr>)"
    and a2: "rb_role bob_body = Absent \<longrightarrow> u_role user2 = ''student''"
    by blast
  from register_role_verbatim [OF hn h(4-7), of sample_hash 100] obtain user3 where
    r3: "register sample_hash 100 (Some (ann_body\<lparr>rb_role := Null\<rparr>)) empty_db
        = ((Authenticated ''User registered successfully'' (next_user_id empty_db)
              (user_json user3), 201),
           empty_db\<lparr>users := users empty_db @ [user3],
                     next_user_id := next_user_id empty_db + 1\<rparr>)"
    and n3: "rb_role (ann_body\<lparr>rb_role := Null\<rparr>) = Null \<longrightarrow> u_role user3 = ''student''"
    by blast
  have 1: "snd (fst (register sample_hash 100 (Some ann_body) empty_db)) = 201"
    using r by simp
  have 2: "map u_role (users (snd (register sample_hash 100 (Some ann_body) empty_db)))
       = [''organizer'']"
    using r v b(2,4) by simp
  have 3: "snd (fst (create_event sample_fromisoformat 300 1 (Some fair_body)
                 (snd (register sample_hash 100 (Some ann_body) empty_db)))) \<noteq> 403"
    using c b(1,2,3) by simp
  have 4: "snd (fst (create_event sample_fromisoformat 300 1 (Some fair_body)
                 (snd (register sample_hash 100 (Some ann_body) empty_db)))) = 201"
    by (simp add: register_def create_event_def user_by_email_def get_user_def empty_db_def
        ann_body_def fair_body_def sample_fromisoformat_def parse_date_def replace_Z_def
        Let_def)
  have 5: "map u_role (users (snd (register sample_hash 200 (Some bob_body) empty_db)))
       = [''student'']"
    using r2 a2 b(4,5) by simp
  have 6: "snd (fst (create_event sample_fromisoformat 300 1 (Some fair_body)
                 (snd (register sample_hash 200 (Some bob_body) empty_db)))) = 403"
    by (simp add: register_def create_event_def user_by_email_def get_user_def empty_db_def
        bob_body_def Let_def)
  have 7: "map u_role (users (snd (register sample_hash 100
             (Some (ann_body\<lparr>rb_role := Null\<rparr>)) empty_db))) = [''student'']"
    using r3 n3 b(4,6) by simp
  show ?thesis
    by (rule conjI [OF 1 conjI [OF 2 conjI [OF 3 conjI [OF 4 conjI [OF 5 conjI [OF 6 7]]]]]])
qed

section \<open>Order of the listings\<close>

lemma sorted_desc_rev_sort_key:
  "sorted_wrt (\<lambda>a b. a \<ge> b) (map k (rev (sort_key k xs)))"
proof -
  have "sorted (map k (sort_key k xs))" by (rule sorted_sort_key)
  then have "sorted_wrt (\<lambda>a b. b \<le> a) (rev (map k (sort_key k xs)))"
    by (simp add: sorted_wrt_rev)
  then show ?thesis by (simp add: rev_map)
qed

text \<open>
  C9: for every store, \<^verbatim>\<open>GET /api/events\<close> returns the entries of all events, in ascending
  order of their dates, and \<^verbatim>\<open>GET /api/events/{id}/comments\<close> returns the entries of the
  comments of that event, in descending order of their timestamps.
\<close>

theorem listings_sorted:
  "(\<exists>views. get_events s = (EventList views, 200)
       \<and> sorted (map ev_date views)
       \<and> mset views = mset (map (event_json s) (events s)))
   \<and> (\<exists>views. get_comments event_id s = (CommentList views, 200)
       \<and> sorted_wrt (\<lambda>a b. a \<ge> b) (map cv_timestamp views)
       \<and> mset views = mset (map (comment_json s) (event_comments s event_id)))"
proof
  have d: "map ev_date (map (event_json s) xs) = map e_date xs" for xs
    by (simp add: event_json_def)
  have "sorted (map ev_date (map (event_json s) (sort_key e_date (events s))))"
    unfolding d by (rule sorted_sort_key)
  moreover have "mset (map (event_json s) (sort_key e_date (events s)))
      = mset (map (event_json s) (events s))"
    by simp
  ultimately show "\<exists>views. get_events s = (EventList views, 200)
       \<and> sorted (map ev_date views)
       \<and> mset views = mset (map (event_json s) (events s))"
    by (simp add: get_events_def)
next
  let ?cs = "event_comments s event_id"
  have t: "map cv_timestamp (map (comment_json s) xs) = map c_timestamp xs" for xs
    by (simp add: comment_json_def)
  have "sorted_wrt (\<lambda>a b. a \<ge> b)
          (map cv_timestamp (map (comment_json s) (rev (sort_key c_timestamp ?cs))))"
    unfolding t by (rule sorted_desc_rev_sort_key)
  moreover have "mset (map (comment_json s) (rev (sort_key c_timestamp ?cs)))
      = mset (map (comment_json s) ?cs)"
    by simp
  ultimately show "\<exists>views. get_comments event_id s = (CommentList views, 200)
       \<and> sorted_wrt (\<lambda>a b. a \<ge> b) (map cv_timestamp views)
       \<and> mset views = mset (map (comment_json s) (event_comments s event_id))"
    by (simp add: get_comments_def)
qed

text \<open>The two events and the three comments on the fair of the example store.\<close>

theorem listings_sorted_witness:
  "sorted (map ev_date (case fst (get_events chat_db) of EventList views \<Rightarrow> views | _ \<Rightarrow> []))
   \<and> sorted_wrt (\<lambda>a b. a \<ge> b) (map cv_timestamp
        (case fst (get_comments 1 chat_db) of CommentList views \<Rightarrow> views | _ \<Rightarrow> []))
   \<and> map ev_id (case fst (get_events chat_db) of EventList views \<Rightarrow> views | _ \<Rightarrow> []) = [2, 1]
   \<and> map ev_date (case fst (get_events chat_db) of EventList views \<Rightarrow> views | _ \<Rightarrow> [])
       = [4000, 5000]
   \<and> map cv_id (case fst (get_comments 1 chat_db) of CommentList views \<Rightarrow> views | _ \<Rightarrow> [])
       = [2, 4, 1]
   \<and> map cv_timestamp
        (case fst (get_comments 1 chat_db) of CommentList views \<Rightarrow> views | _ \<Rightarrow> [])
       = [900, 800, 700]
   \<and> map cv_user_name
        (case fst (get_comments 1 chat_db) of CommentList views \<Rightarrow> views | _ \<Rightarrow> [])
       = [''Ann'', ''Ann'', ''Bob'']"
proof -
  have e: "fst (get_events chat_db)
      = EventList (map (event_json chat_db) [gala, fair])"
    by (simp add: get_events_def chat_db_def rsvpd_db_def sample_db_def fair_def gala_def)
  have c: "fst (get_comments 1 chat_db)
      = CommentList (map (comment_json chat_db)
         [\<lparr>c_id = 2, c_user_id = 1, c_event_id = 1, c_content = ''In May'', c_timestamp = 900\<rparr>,
          \<lparr>c_id = 4, c_user_id = 1, c_event_id = 1, c_content = ''See you'', c_timestamp = 800\<rparr>,
          \<lparr>c_id = 1, c_user_id = 2, c_event_id = 1, c_content = ''When?'', c_timestamp = 700\<rparr>])"
    by (simp add: get_comments_def event_comments_def chat_db_def)
  have u: "get_user chat_db 1 = Some ann" "get_user chat_db 2 = Some bob"
    by (simp_all add: get_user_def chat_db_def rsvpd_db_def sample_db_def ann_def bob_def)
  from listings_sorted [of chat_db 1] obtain evs cms where
    "get_events chat_db = (EventList evs, 200)" "sorted (map ev_date evs)"
    "get_comments 1 chat_db = (CommentList cms, 200)"
    "sorted_wrt (\<lambda>a b. a \<ge> b) (map cv_timestamp cms)"
    by blast
  then have s: "sorted (map ev_date
        (case fst (get_events chat_db) of EventList views \<Rightarrow> views | _ \<Rightarrow> []))"
    "sorted_wrt (\<lambda>a b. a \<ge> b) (map cv_timestamp
        (case fst (get_comments 1 chat_db) of CommentList views \<Rightarrow> views | _ \<Rightarrow> []))"
    by simp_all
  have "map ev_id (case fst (get_events chat_db) of EventList views \<Rightarrow> views | _ \<Rightarrow> [])
      = [2, 1]
   \<and> map ev_date (case fst (get_events chat_db) of EventList views \<Rightarrow> views | _ \<Rightarrow> [])
       = [4000, 5000]
   \<and> map cv_id (case fst (get_comments 1 chat_db) of CommentList views \<Rightarrow> views | _ \<Rightarrow> [])
       = [2, 4, 1]
   \<and> map cv_timestamp
        (case fst (get_comments 1 chat_db) of CommentList views \<Rightarrow> views | _ \<Rightarrow> [])
       = [900, 800, 700]
   \<and> map cv_user_name
        (case fst (get_comments 1 chat_db) of CommentList views \<Rightarrow> views | _ \<Rightarrow> [])
       = [''Ann'', ''Ann'', ''Bob'']"
    unfolding e c
    by (simp add: event_json_def comment_json_def u fair_def gala_def ann_def bob_def)
  with s show ?thesis by blast
qed

section \<open>What an update changes\<close>

lemma get_event_id: "get_event s i = Some event \<Longrightarrow> e_id event = i"
  by (auto simp: get_event_def find_Some_iff)

lemma find_replaced:
  "find (\<lambda>e. e_id e = i) xs = Some x \<Longrightarrow> e_id y = i
   \<Longrightarrow> find (\<lambda>e. e_id e = i) (map (\<lambda>e. if e_id e = i then y else e) xs) = Some y"
  by (induction xs) (auto split: if_splits)

lemma find_not_replaced:
  "j \<noteq> i \<Longrightarrow> e_id y = i
   \<Longrightarrow> find (\<lambda>e. e_id e = j) (map (\<lambda>e. if e_id e = i then y else e) xs)
       = find (\<lambda>e. e_id e = j) xs"
  by (induction xs) auto

lemma get_event_store_event:
  assumes "get_event s i = Some event" "e_id event' = i"
  shows "get_event (store_event event' s) i = Some event'"
    and "j \<noteq> i \<Longrightarrow> get_event (store_event event' s) j = get_event s j"
    and "users (store_event event' s) = users s"
    and "rsvps (store_event event' s) = rsvps s"
    and "comments (store_event event' s) = comments s"
  using assms
  by (simp_all add: get_event_def store_event_def find_replaced find_not_replaced)

lemma update_event_organizer:
  assumes "get_event s event_id = Some event" "e_organizer_id event = user_id"
  shows "update_event fromisoformat user_id event_id (Some d) s =
    (case patch_date fromisoformat (eb_date d) (e_date event) of
       None \<Rightarrow> ((Error ''Invalid date format'', 400), s)
     | Some date \<Rightarrow>
        ((Message ''Event updated successfully'', 200),
         store_event
           (event\<lparr>e_title := patch_str (eb_title d) (e_title event),
                  e_description := patch_str (eb_description d) (e_description event),
                  e_date := date,
                  e_location := patch_str (eb_location d) (e_location event),
                  e_price := patch_price (eb_price d) (e_price event),
                  e_banner := patch_banner (eb_banner d) (e_banner event)\<rparr>) s))"
  using assms by (simp add: update_event_def)

lemma patch_str_cases:
  "patch_str f old = (case f of Val v \<Rightarrow> if v = [] then old else v | _ \<Rightarrow> old)"
  by (cases f) (simp_all add: patch_str_def)

lemma patch_banner_cases:
  "patch_banner f old = (case f of Val v \<Rightarrow> if v = [] then old else Some v | _ \<Rightarrow> old)"
  by (cases f) (simp_all add: patch_banner_def)

lemma patch_price_cases:
  "patch_price f old = (case f of Val v \<Rightarrow> v | _ \<Rightarrow> old)"
  by (cases f) (simp_all add: patch_price_def)

lemma patch_date_cases:
  "patch_date fromisoformat f old =
    (case f of Val v \<Rightarrow> if v = [] then Some old else fromisoformat (replace_Z v)
     | _ \<Rightarrow> Some old)"
  by (cases f) (simp_all add: patch_date_def parse_date_def)

text \<open>
  The organizer of the fair sends the empty string as the title: the request succeeds
  and the title is still \<open>Fair\<close>. The guard \<^verbatim>\<open>if data.get('title')\<close> skips a supplied value
  that is falsy.
\<close>

theorem update_event_patch_counterexample:
  "eb_title (no_fields\<lparr>eb_title := Val []\<rparr>) = Val []
   \<and> get_event sample_db 1 = Some fair \<and> e_organizer_id fair = 1 \<and> e_title fair = ''Fair''
   \<and> update_event sample_fromisoformat 1 1 (Some (no_fields\<lparr>eb_title := Val []\<rparr>)) sample_db
       = ((Message ''Event updated successfully'', 200), sample_db)"
proof -
  have e: "get_event sample_db 1 = Some fair"
    by (simp add: get_event_def sample_db_def fair_def)
  have k: "store_event fair sample_db = sample_db"
    by (simp add: store_event_def sample_db_def fair_def gala_def)
  have "update_event sample_fromisoformat 1 1 (Some (no_fields\<lparr>eb_title := Val []\<rparr>)) sample_db
       = ((Message ''Event updated successfully'', 200), store_event fair sample_db)"
    by (simp add: update_event_def e no_fields_def patch_date_def patch_str_def
        patch_price_def patch_banner_def fair_def)
  with e k show ?thesis by (simp add: no_fields_def fair_def)
qed

text \<open>
  C5 (amended): \<^verbatim>\<open>update_event\<close> is a partial patch. For a request with a body by the
  organizer of an existing event: it succeeds (status 200) unless a non-empty \<open>date\<close>
  string does not parse, and then it is answered with status 400 and \<open>Invalid date format\<close>
  and changes nothing. On success
  each of title, description, location and banner takes the supplied value when that is
  a non-empty string and keeps its previous value otherwise (key absent, \<open>null\<close> or the
  empty string); the date likewise takes the parsed value of a non-empty string; the
  price takes the supplied value when it is not \<open>null\<close>. The fields id, organizer_id and
  created_at keep their values, and so do all other events, the users, the RSVPs and the
  comments.
\<close>

theorem update_event_patch:
  assumes "get_event s event_id = Some event" "e_organizer_id event = user_id"
  shows "(snd (fst (update_event fromisoformat user_id event_id (Some d) s)) = 200
          \<longleftrightarrow> \<not> (\<exists>ds. eb_date d = Val ds \<and> ds \<noteq> [] \<and> fromisoformat (replace_Z ds) = None))
    \<and> (snd (fst (update_event fromisoformat user_id event_id (Some d) s)) \<noteq> 200
          \<longrightarrow> update_event fromisoformat user_id event_id (Some d) s
              = ((Error ''Invalid date format'', 400), s))
    \<and> (snd (fst (update_event fromisoformat user_id event_id (Some d) s)) = 200
          \<longrightarrow> (\<exists>event'.
                get_event (snd (update_event fromisoformat user_id event_id (Some d) s)) event_id
                  = Some event'
              \<and> e_title event'
                  = (case eb_title d of Val v \<Rightarrow> if v = [] then e_title event else v
                     | _ \<Rightarrow> e_title event)
              \<and> e_description event'
                  = (case eb_description d of Val v \<Rightarrow> if v = [] then e_description event else v
                     | _ \<Rightarrow> e_description event)
              \<and> Some (e_date event')
                  = (case eb_date d of
                       Val v \<Rightarrow> if v = [] then Some (e_date event) else fromisoformat (replace_Z v)
                     | _ \<Rightarrow> Some (e_date event))
              \<and> e_location event'
                  = (case eb_location d of Val v \<Rightarrow> if v = [] then e_location event else v
                     | _ \<Rightarrow> e_location event)
              \<and> e_price event' = (case eb_price d of Val v \<Rightarrow> v | _ \<Rightarrow> e_price event)
              \<and> e_banner event'
                  = (case eb_banner d of Val v \<Rightarrow> if v = [] then e_banner event else Some v
                     | _ \<Rightarrow> e_banner event)
              \<and> e_id event' = e_id event
              \<and> e_organizer_id event' = e_organizer_id event
              \<and> e_created_at event' = e_created_at event)
            \<and> (\<forall>j. j \<noteq> event_id
                  \<longrightarrow> get_event (snd (update_event fromisoformat user_id event_id (Some d) s)) j
                      = get_event s j)
            \<and> users (snd (update_event fromisoformat user_id event_id (Some d) s)) = users s
            \<and> rsvps (snd (update_event fromisoformat user_id event_id (Some d) s)) = rsvps s
            \<and> comments (snd (update_event fromisoformat user_id event_id (Some d) s))
                = comments s)"
proof (cases "patch_date fromisoformat (eb_date d) (e_date event)")
  case None
  then have u: "update_event fromisoformat user_id event_id (Some d) s
      = ((Error ''Invalid date format'', 400), s)"
    using update_event_organizer [OF assms] by simp
  from None have "\<exists>ds. eb_date d = Val ds \<and> ds \<noteq> [] \<and> fromisoformat (replace_Z ds) = None"
    by (cases "eb_date d") (simp_all add: patch_date_cases split: if_splits)
  with u show ?thesis by simp
next
  case (Some date)
  define event' where "event' = event\<lparr>e_title := patch_str (eb_title d) (e_title event),
                  e_description := patch_str (eb_description d) (e_description event),
                  e_date := date,
                  e_location := patch_str (eb_location d) (e_location event),
                  e_price := patch_price (eb_price d) (e_price event),
                  e_banner := patch_banner (eb_banner d) (e_banner event)\<rparr>"
  from Some have u: "update_event fromisoformat user_id event_id (Some d) s
      = ((Message ''Event updated successfully'', 200), store_event event' s)"
    using update_event_organizer [OF assms] by (simp add: event'_def)
  have i: "e_id event' = event_id"
    using get_event_id [OF assms(1)] by (simp add: event'_def)
  note g = get_event_store_event [OF assms(1) i]
  from Some have n: "\<not> (\<exists>ds. eb_date d = Val ds \<and> ds \<noteq> [] \<and> fromisoformat (replace_Z ds) = None)"
    by (cases "eb_date d") (auto simp: patch_date_cases split: if_splits)
  have f: "e_title event'
                  = (case eb_title d of Val v \<Rightarrow> if v = [] then e_title event else v
                     | _ \<Rightarrow> e_title event)"
    "e_description event'
                  = (case eb_description d of Val v \<Rightarrow> if v = [] then e_description event else v
                     | _ \<Rightarrow> e_description event)"
    "Some (e_date event')
                  = (case eb_date d of
                       Val v \<Rightarrow> if v = [] then Some (e_date event) else fromisoformat (replace_Z v)
                     | _ \<Rightarrow> Some (e_date event))"
    "e_location event'
                  = (case eb_location d of Val v \<Rightarrow> if v = [] then e_location event else v
                     | _ \<Rightarrow> e_location event)"
    "e_price event' = (case eb_price d of Val v \<Rightarrow> v | _ \<Rightarrow> e_price event)"
    "e_banner event'
                  = (case eb_banner d of Val v \<Rightarrow> if v = [] then e_banner event else Some v
                     | _ \<Rightarrow> e_banner event)"
    "e_id event' = e_id event" "e_organizer_id event' = e_organizer_id event"
    "e_created_at event' = e_created_at event"
    using Some
    by (simp_all add: event'_def patch_str_cases patch_banner_cases patch_price_cases
        patch_date_cases)
  show ?thesis
    unfolding u using n g f by simp
qed

text \<open>The organizer renames the fair and sets a price; the \<open>null\<close> description and the empty
  banner are skipped. A date that does not parse changes nothing.\<close>

theorem update_event_patch_witness:
  "get_event sample_db 1 = Some fair \<and> e_organizer_id fair = 1
   \<and> snd (fst (update_event sample_fromisoformat 1 1
        (Some (no_fields\<lparr>eb_title := Val ''Fete'', eb_description := Null,
                          eb_price := Val 5, eb_banner := Val []\<rparr>)) sample_db)) = 200
   \<and> (\<exists>event'. get_event (snd (update_event sample_fromisoformat 1 1
        (Some (no_fields\<lparr>eb_title := Val ''Fete'', eb_description := Null,
                          eb_price := Val 5, eb_banner := Val []\<rparr>)) sample_db)) 1 = Some event'
         \<and> e_title event' = ''Fete'' \<and> e_description event' = ''Spring fair''
         \<and> e_price event' = 5 \<and> e_banner event' = None \<and> e_date event' = 5000
         \<and> e_organizer_id event' = 1)
   \<and> snd (update_event sample_fromisoformat 1 1
        (Some (no_fields\<lparr>eb_date := Val ''next week''\<rparr>)) sample_db) = sample_db"
proof -
  let ?d = "no_fields\<lparr>eb_title := Val ''Fete'', eb_description := Null,
                          eb_price := Val 5, eb_banner := Val []\<rparr>"
  let ?b = "no_fields\<lparr>eb_date := Val ''next week''\<rparr>"
  have e: "get_event sample_db 1 = Some fair" and o: "e_organizer_id fair = 1"
    by (simp_all add: get_event_def sample_db_def fair_def)
  note t = update_event_patch [OF e o, of sample_fromisoformat ?d]
  note t' = update_event_patch [OF e o, of sample_fromisoformat ?b]
  have ok: "\<not> (\<exists>ds. eb_date ?d = Val ds \<and> ds \<noteq> []
              \<and> sample_fromisoformat (replace_Z ds) = None)"
    by (simp add: no_fields_def)
  have bad: "\<exists>ds. eb_date ?b = Val ds \<and> ds \<noteq> []
              \<and> sample_fromisoformat (replace_Z ds) = None"
    by (simp add: no_fields_def sample_fromisoformat_def replace_Z_def)
  from t [THEN conjunct1] ok
  have 1: "snd (fst (update_event sample_fromisoformat 1 1 (Some ?d) sample_db)) = 200"
    by blast
  from t [THEN conjunct2, THEN conjunct2] 1 obtain event' where
    g: "get_event (snd (update_event sample_fromisoformat 1 1 (Some ?d) sample_db)) 1
          = Some event'"
    and f: "e_title event' = (case eb_title ?d of Val v \<Rightarrow> if v = [] then e_title fair else v
                     | _ \<Rightarrow> e_title fair)"
      "e_description event'
          = (case eb_description ?d of Val v \<Rightarrow> if v = [] then e_description fair else v
             | _ \<Rightarrow> e_description fair)"
      "Some (e_date event')
          = (case eb_date ?d of
               Val v \<Rightarrow> if v = [] then Some (e_date fair)
                        else sample_fromisoformat (replace_Z v)
             | _ \<Rightarrow> Some (e_date fair))"
      "e_price event' = (case eb_price ?d of Val v \<Rightarrow> v | _ \<Rightarrow> e_price fair)"
      "e_banner event'
          = (case eb_banner ?d of Val v \<Rightarrow> if v = [] then e_banner fair else Some v
             | _ \<Rightarrow> e_banner fair)"
      "e_organizer_id event' = e_organizer_id fair"
    by blast
  from f have "e_title event' = ''Fete'' \<and> e_description event' = ''Spring fair''
         \<and> e_price event' = 5 \<and> e_banner event' = None \<and> e_date event' = 5000
         \<and> e_organizer_id event' = 1"
    by (simp add: no_fields_def fair_def)
  with g have 2: "\<exists>event'. get_event (snd (update_event sample_fromisoformat 1 1 (Some ?d)
           sample_db)) 1 = Some event'
         \<and> e_title event' = ''Fete'' \<and> e_description event' = ''Spring fair''
         \<and> e_price event' = 5 \<and> e_banner event' = None \<and> e_date event' = 5000
         \<and> e_organizer_id event' = 1"
    by blast
  from t' [THEN conjunct1] bad
  have "snd (fst (update_event sample_fromisoformat 1 1 (Some ?b) sample_db)) \<noteq> 200"
    by blast
  with t' [THEN conjunct2, THEN conjunct1]
  have "update_event sample_fromisoformat 1 1 (Some ?b) sample_db
      = ((Error ''Invalid date format'', 400), sample_db)"
    by blast
  then have 3: "snd (update_event sample_fromisoformat 1 1 (Some ?b) sample_db) = sample_db"
    by simp
  show ?thesis by (rule conjI [OF e conjI [OF o conjI [OF 1 conjI [OF 2 3]]]])
qed

section \<open>Deleting an event that has RSVPs or comments\<close>

text \<open>
  C4: when the organizer of an existing event deletes it while an RSVP or a comment
  refers to it, the request ends in the unhandled \<^verbatim>\<open>IntegrityError\<close> (status 500) and the
  store is unchanged: the event, its RSVPs and its comments are all still there. A delete
  that succeeds found no RSVP and no comment of the event.
\<close>

theorem delete_event_keeps_dependents:
  assumes "get_event s event_id = Some event" and "e_organizer_id event = user_id"
  shows "(event_rsvps s event_id \<noteq> [] \<or> event_comments s event_id \<noteq> []
          \<longrightarrow> delete_event user_id event_id s = ((Unhandled ''IntegrityError'', 500), s))
       \<and> (snd (fst (delete_event user_id event_id s)) = 200
          \<longrightarrow> event_rsvps s event_id = [] \<and> event_comments s event_id = [])"
  using assms get_event_id [OF assms(1)] by (simp add: delete_event_def)

text \<open>The organizer of the fair deletes it while the second user has an RSVP for it, and
  while it has comments as well.\<close>

theorem delete_event_keeps_dependents_witness:
  "get_event rsvpd_db 1 = Some fair \<and> e_organizer_id fair = 1
   \<and> event_rsvps rsvpd_db 1 = [bob_rsvp]
   \<and> delete_event 1 1 rsvpd_db = ((Unhandled ''IntegrityError'', 500), rsvpd_db)
   \<and> event_comments chat_db 1 \<noteq> []
   \<and> delete_event 1 1 chat_db = ((Unhandled ''IntegrityError'', 500), chat_db)
   \<and> snd (fst (delete_event 1 2 rsvpd_db)) = 200
   \<and> event_rsvps rsvpd_db 2 = [] \<and> event_comments rsvpd_db 2 = []"
proof -
  have e: "get_event rsvpd_db 1 = Some fair" "get_event chat_db 1 = Some fair"
    "get_event rsvpd_db 2 = Some gala"
    by (simp_all add: get_event_def chat_db_def rsvpd_db_def sample_db_def fair_def gala_def)
  have o: "e_organizer_id fair = 1" "e_organizer_id gala = 1"
    by (simp_all add: fair_def gala_def)
  have r: "event_rsvps rsvpd_db 1 = [bob_rsvp]" "event_comments chat_db 1 \<noteq> []"
    by (simp_all add: event_rsvps_def event_comments_def chat_db_def rsvpd_db_def bob_rsvp_def)
  have n: "event_rsvps rsvpd_db 2 = []" "event_comments rsvpd_db 2 = []"
    by (simp_all add: event_rsvps_def event_comments_def rsvpd_db_def sample_db_def bob_rsvp_def)
  have d: "snd (fst (delete_event 1 2 rsvpd_db)) = 200"
    by (simp add: delete_event_def e gala_def n)
  from delete_event_keeps_dependents [OF e(1) o(1)] r(1)
  have 1: "delete_event 1 1 rsvpd_db = ((Unhandled ''IntegrityError'', 500), rsvpd_db)"
    by simp
  from delete_event_keeps_dependents [OF e(2) o(1)] r(2)
  have 2: "delete_event 1 1 chat_db = ((Unhandled ''IntegrityError'', 500), chat_db)"
    by simp
  from delete_event_keeps_dependents [OF e(3) o(2)] d
  have 3: "event_rsvps rsvpd_db 2 = [] \<and> event_comments rsvpd_db 2 = []"
    by simp
  from e(1) o(1) r 1 2 d 3 show ?thesis by simp
qed

section \<open>Dates in requests\<close>

lemma replace_Z_append: "replace_Z (xs @ ys) = replace_Z xs @ replace_Z ys"
  by (simp add: replace_Z_def)

lemma replace_Z_no_Z: "CHR ''Z'' \<notin> set xs \<Longrightarrow> replace_Z xs = xs"
  by (induction xs) (auto simp: replace_Z_def)

lemma replace_Z_trailing: "replace_Z (xs @ ''Z'') = replace_Z xs @ ''+00:00''"
  by (simp add: replace_Z_def)

lemma create_event_organizer:
  assumes "get_user s user_id = Some user" "u_role user = ''organizer''"
    and "eb_title d = Val title" "title \<noteq> []"
    and "eb_description d = Val description" "description \<noteq> []"
    and "eb_location d = Val location" "location \<noteq> []"
    and "eb_date d = Val ds" "ds \<noteq> []"
  shows "create_event fromisoformat now user_id (Some d) s =
    (case fromisoformat (replace_Z ds) of
       None \<Rightarrow> ((Error ''Invalid date format'', 400), s)
     | Some event_date \<Rightarrow>
        ((EventCreated ''Event created successfully''
            \<lparr>ei_id = next_event_id s, ei_title = title, ei_description = description,
             ei_date = event_date, ei_location = location,
             ei_price = column_default (get_default (eb_price d) 0) 0,
             ei_banner = get (eb_banner d)\<rparr>, 201),
         s\<lparr>events := events s @
               [\<lparr>e_id = next_event_id s, e_title = title, e_description = description,
                 e_date = event_date, e_location = location,
                 e_price = column_default (get_default (eb_price d) 0) 0,
                 e_banner = get (eb_banner d), e_organizer_id = user_id,
                 e_created_at = now\<rparr>],
           next_event_id := next_event_id s + 1\<rparr>))"
  using assms by (simp add: create_event_def parse_date_def Let_def split: option.splits)

text \<open>
  The organizer of the fair sends the empty string as the date, which the parser rejects:
  the update succeeds, with nothing changed. The guard \<^verbatim>\<open>if data.get('date')\<close> skips the
  parse for a falsy value.
\<close>

theorem date_validation_counterexample:
  "eb_date (no_fields\<lparr>eb_date := Val []\<rparr>) = Val []
   \<and> sample_fromisoformat (replace_Z []) = None
   \<and> get_event sample_db 1 = Some fair \<and> e_organizer_id fair = 1
   \<and> update_event sample_fromisoformat 1 1 (Some (no_fields\<lparr>eb_date := Val []\<rparr>)) sample_db
       = ((Message ''Event updated successfully'', 200), sample_db)"
proof -
  have e: "get_event sample_db 1 = Some fair"
    by (simp add: get_event_def sample_db_def fair_def)
  have k: "store_event fair sample_db = sample_db"
    by (simp add: store_event_def sample_db_def fair_def gala_def)
  have "update_event sample_fromisoformat 1 1 (Some (no_fields\<lparr>eb_date := Val []\<rparr>)) sample_db
       = ((Message ''Event updated successfully'', 200), store_event fair sample_db)"
    by (simp add: update_event_def e no_fields_def patch_date_def patch_str_def
        patch_price_def patch_banner_def fair_def)
  with e k show ?thesis
    by (simp add: no_fields_def fair_def sample_fromisoformat_def replace_Z_def)
qed

text \<open>
  C6 (amended): a non-empty date string that reaches the parse (in \<^verbatim>\<open>create_event\<close>: the
  caller is an organizer and title, description and location are present; in
  \<^verbatim>\<open>update_event\<close>: the caller is the organizer of the existing event) is given to
  \<^verbatim>\<open>fromisoformat\<close> with every \<open>Z\<close> replaced by \<open>+00:00\<close>, so that a trailing \<open>Z\<close> is read as
  the offset \<open>+00:00\<close>. If the parser rejects it, the operation fails with status 400 and
  \<open>Invalid date format\<close> and changes nothing; if the parser accepts it, the operation
  succeeds and the event has the parsed date. The empty string is not parsed:
  \<^verbatim>\<open>create_event\<close> answers 400 with \<open>Missing required fields\<close>, and \<^verbatim>\<open>update_event\<close> succeeds
  and keeps the date.
\<close>

theorem date_validation:
  "(get_user s user_id = Some user \<and> u_role user = ''organizer''
      \<and> truthy_str (get (eb_title d)) \<and> truthy_str (get (eb_description d))
      \<and> truthy_str (get (eb_location d)) \<and> eb_date d = Val ds \<and> ds \<noteq> []
     \<longrightarrow> (fromisoformat (replace_Z ds) = None
           \<longrightarrow> create_event fromisoformat now user_id (Some d) s
               = ((Error ''Invalid date format'', 400), s))
        \<and> (\<forall>t. fromisoformat (replace_Z ds) = Some t
           \<longrightarrow> snd (fst (create_event fromisoformat now user_id (Some d) s)) = 201
             \<and> (\<exists>new. events (snd (create_event fromisoformat now user_id (Some d) s))
                        = events s @ [new] \<and> e_date new = t)))
   \<and> (get_event s event_id = Some event \<and> e_organizer_id event = caller
      \<and> eb_date d' = Val ds' \<and> ds' \<noteq> []
     \<longrightarrow> (fromisoformat (replace_Z ds') = None
           \<longrightarrow> update_event fromisoformat caller event_id (Some d') s
               = ((Error ''Invalid date format'', 400), s))
        \<and> (\<forall>t. fromisoformat (replace_Z ds') = Some t
           \<longrightarrow> snd (fst (update_event fromisoformat caller event_id (Some d') s)) = 200
             \<and> (\<exists>event'. get_event (snd (update_event fromisoformat caller event_id (Some d') s))
                            event_id = Some event' \<and> e_date event' = t)))
   \<and> (get_user s user_id = Some user \<and> u_role user = ''organizer'' \<and> eb_date d = Val []
     \<longrightarrow> create_event fromisoformat now user_id (Some d) s
         = ((Error ''Missing required fields'', 400), s))
   \<and> (get_event s event_id = Some event \<and> e_organizer_id event = caller \<and> eb_date d' = Val []
     \<longrightarrow> snd (fst (update_event fromisoformat caller event_id (Some d') s)) = 200
       \<and> (\<exists>event'. get_event (snd (update_event fromisoformat caller event_id (Some d') s))
                      event_id = Some event' \<and> e_date event' = e_date event))
   \<and> parse_date fromisoformat (ds0 @ ''Z'') = fromisoformat (replace_Z ds0 @ ''+00:00'')
   \<and> (CHR ''Z'' \<notin> set ds0
     \<longrightarrow> parse_date fromisoformat (ds0 @ ''Z'') = fromisoformat (ds0 @ ''+00:00'')
       \<and> parse_date fromisoformat (ds0 @ ''Z'') = parse_date fromisoformat (ds0 @ ''+00:00''))"
proof -
  have 1: "get_user s user_id = Some user \<and> u_role user = ''organizer''
      \<and> truthy_str (get (eb_title d)) \<and> truthy_str (get (eb_description d))
      \<and> truthy_str (get (eb_location d)) \<and> eb_date d = Val ds \<and> ds \<noteq> []
     \<longrightarrow> (fromisoformat (replace_Z ds) = None
           \<longrightarrow> create_event fromisoformat now user_id (Some d) s
               = ((Error ''Invalid date format'', 400), s))
        \<and> (\<forall>t. fromisoformat (replace_Z ds) = Some t
           \<longrightarrow> snd (fst (create_event fromisoformat now user_id (Some d) s)) = 201
             \<and> (\<exists>new. events (snd (create_event fromisoformat now user_id (Some d) s))
                        = events s @ [new] \<and> e_date new = t))"
  proof
    assume a: "get_user s user_id = Some user \<and> u_role user = ''organizer''
      \<and> truthy_str (get (eb_title d)) \<and> truthy_str (get (eb_description d))
      \<and> truthy_str (get (eb_location d)) \<and> eb_date d = Val ds \<and> ds \<noteq> []"
    then obtain title description location where
      f: "eb_title d = Val title" "title \<noteq> []" "eb_description d = Val description"
        "description \<noteq> []" "eb_location d = Val location" "location \<noteq> []"
      by (cases "eb_title d"; cases "eb_description d"; cases "eb_location d") auto
    from a have "get_user s user_id = Some user" "u_role user = ''organizer''"
      "eb_date d = Val ds" "ds \<noteq> []"
      by simp_all
    note c = create_event_organizer [OF this(1,2) f this(3,4), of fromisoformat now]
    show "(fromisoformat (replace_Z ds) = None
           \<longrightarrow> create_event fromisoformat now user_id (Some d) s
               = ((Error ''Invalid date format'', 400), s))
        \<and> (\<forall>t. fromisoformat (replace_Z ds) = Some t
           \<longrightarrow> snd (fst (create_event fromisoformat now user_id (Some d) s)) = 201
             \<and> (\<exists>new. events (snd (create_event fromisoformat now user_id (Some d) s))
                        = events s @ [new] \<and> e_date new = t))"
      unfolding c by simp
  qed
  have 2: "get_event s event_id = Some event \<and> e_organizer_id event = caller
      \<and> eb_date d' = Val ds' \<and> ds' \<noteq> []
     \<longrightarrow> (fromisoformat (replace_Z ds') = None
           \<longrightarrow> update_event fromisoformat caller event_id (Some d') s
               = ((Error ''Invalid date format'', 400), s))
        \<and> (\<forall>t. fromisoformat (replace_Z ds') = Some t
           \<longrightarrow> snd (fst (update_event fromisoformat caller event_id (Some d') s)) = 200
             \<and> (\<exists>event'. get_event (snd (update_event fromisoformat caller event_id (Some d') s))
                            event_id = Some event' \<and> e_date event' = t))"
  proof
    assume a: "get_event s event_id = Some event \<and> e_organizer_id event = caller
      \<and> eb_date d' = Val ds' \<and> ds' \<noteq> []"
    then have e: "get_event s event_id = Some event" and o: "e_organizer_id event = caller"
      and p: "patch_date fromisoformat (eb_date d') (e_date event) = fromisoformat (replace_Z ds')"
      by (simp_all add: patch_date_cases)
    note u = update_event_organizer [OF e o, of fromisoformat d']
    note i = get_event_id [OF e]
    show "(fromisoformat (replace_Z ds') = None
           \<longrightarrow> update_event fromisoformat caller event_id (Some d') s
               = ((Error ''Invalid date format'', 400), s))
        \<and> (\<forall>t. fromisoformat (replace_Z ds') = Some t
           \<longrightarrow> snd (fst (update_event fromisoformat caller event_id (Some d') s)) = 200
             \<and> (\<exists>event'. get_event (snd (update_event fromisoformat caller event_id (Some d') s))
                            event_id = Some event' \<and> e_date event' = t))"
      unfolding u p using i by (auto simp: get_event_store_event(1) [OF e])
  qed
  have 3: "get_user s user_id = Some user \<and> u_role user = ''organizer'' \<and> eb_date d = Val []
     \<longrightarrow> create_event fromisoformat now user_id (Some d) s
         = ((Error ''Missing required fields'', 400), s)"
    by (simp add: create_event_def)
  have 4: "get_event s event_id = Some event \<and> e_organizer_id event = caller \<and> eb_date d' = Val []
     \<longrightarrow> snd (fst (update_event fromisoformat caller event_id (Some d') s)) = 200
       \<and> (\<exists>event'. get_event (snd (update_event fromisoformat caller event_id (Some d') s))
                      event_id = Some event' \<and> e_date event' = e_date event)"
  proof
    assume a: "get_event s event_id = Some event \<and> e_organizer_id event = caller
      \<and> eb_date d' = Val []"
    then have e: "get_event s event_id = Some event" and o: "e_organizer_id event = caller"
      and p: "patch_date fromisoformat (eb_date d') (e_date event) = Some (e_date event)"
      by (simp_all add: patch_date_cases)
    note u = update_event_organizer [OF e o, of fromisoformat d']
    note i = get_event_id [OF e]
    show "snd (fst (update_event fromisoformat caller event_id (Some d') s)) = 200
       \<and> (\<exists>event'. get_event (snd (update_event fromisoformat caller event_id (Some d') s))
                      event_id = Some event' \<and> e_date event' = e_date event)"
      unfolding u p using i by (simp add: get_event_store_event(1) [OF e])
  qed
  have 5: "parse_date fromisoformat (ds0 @ ''Z'') = fromisoformat (replace_Z ds0 @ ''+00:00'')"
    by (simp add: parse_date_def replace_Z_trailing)
  have 6: "CHR ''Z'' \<notin> set ds0
     \<longrightarrow> parse_date fromisoformat (ds0 @ ''Z'') = fromisoformat (ds0 @ ''+00:00'')
       \<and> parse_date fromisoformat (ds0 @ ''Z'') = parse_date fromisoformat (ds0 @ ''+00:00'')"
  proof
    assume z: "CHR ''Z'' \<notin> set ds0"
    then have "CHR ''Z'' \<notin> set (ds0 @ ''+00:00'')" by simp
    from replace_Z_no_Z [OF this] replace_Z_no_Z [OF z] 5
    show "parse_date fromisoformat (ds0 @ ''Z'') = fromisoformat (ds0 @ ''+00:00'')
       \<and> parse_date fromisoformat (ds0 @ ''Z'') = parse_date fromisoformat (ds0 @ ''+00:00'')"
      by (simp add: parse_date_def)
  qed
  show ?thesis
    by (rule conjI [OF 1 conjI [OF 2 conjI [OF 3 conjI [OF 4 conjI [OF 5 6]]]]])
qed

text \<open>Dates that the example parser rejects and accepts, in both operations.\<close>

theorem date_validation_witness:
  "create_event sample_fromisoformat 300 1 (Some (fair_body\<lparr>eb_date := Val ''tomorrow''\<rparr>))
       sample_db
     = ((Error ''Invalid date format'', 400), sample_db)
   \<and> snd (fst (create_event sample_fromisoformat 300 1 (Some fair_body) sample_db)) = 201
   \<and> update_event sample_fromisoformat 1 1 (Some (no_fields\<lparr>eb_date := Val ''next week''\<rparr>))
       sample_db
     = ((Error ''Invalid date format'', 400), sample_db)
   \<and> snd (fst (update_event sample_fromisoformat 1 1
                 (Some (no_fields\<lparr>eb_date := Val ''2030-04-01T10:00:00''\<rparr>)) sample_db)) = 200
   \<and> create_event sample_fromisoformat 300 1 (Some (fair_body\<lparr>eb_date := Val []\<rparr>)) sample_db
     = ((Error ''Missing required fields'', 400), sample_db)
   \<and> snd (fst (update_event sample_fromisoformat 1 1 (Some (no_fields\<lparr>eb_date := Val []\<rparr>))
                 sample_db)) = 200
   \<and> parse_date sample_fromisoformat (''2030-05-01T10:00:00'' @ ''Z'') = Some 5000"
proof -
  have u: "get_user sample_db 1 = Some ann" "u_role ann = ''organizer''"
    by (simp_all add: get_user_def sample_db_def ann_def)
  have e: "get_event sample_db 1 = Some fair" "e_organizer_id fair = 1"
    by (simp_all add: get_event_def sample_db_def fair_def)
  have b: "truthy_str (get (eb_title fair_body))" "truthy_str (get (eb_description fair_body))"
    "truthy_str (get (eb_location fair_body))"
    "eb_date fair_body = Val ''2030-05-01T10:00:00Z''"
    "truthy_str (get (eb_title (fair_body\<lparr>eb_date := Val ''tomorrow''\<rparr>)))"
    "truthy_str (get (eb_description (fair_body\<lparr>eb_date := Val ''tomorrow''\<rparr>)))"
    "truthy_str (get (eb_location (fair_body\<lparr>eb_date := Val ''tomorrow''\<rparr>)))"
    by (simp_all add: fair_body_def)
  have p: "sample_fromisoformat (replace_Z ''tomorrow'') = None"
    "sample_fromisoformat (replace_Z ''next week'') = None"
    "sample_fromisoformat (replace_Z ''2030-05-01T10:00:00Z'') = Some 5000"
    "sample_fromisoformat (replace_Z ''2030-04-01T10:00:00'') = Some 4000"
    "sample_fromisoformat (replace_Z ''2030-05-01T10:00:00'' @ ''+00:00'') = Some 5000"
    by (simp_all add: sample_fromisoformat_def replace_Z_def)
  note bad = date_validation [where s = sample_db and user_id = 1 and user = ann
      and d = "fair_body\<lparr>eb_date := Val ''tomorrow''\<rparr>" and ds = "''tomorrow''"
      and fromisoformat = sample_fromisoformat and now = 300
      and event_id = 1 and event = fair and caller = 1
      and d' = "no_fields\<lparr>eb_date := Val ''next week''\<rparr>" and ds' = "''next week''"
      and ds0 = "''2030-05-01T10:00:00''"]
  note good = date_validation [where s = sample_db and user_id = 1 and user = ann
      and d = fair_body and ds = "''2030-05-01T10:00:00Z''"
      and fromisoformat = sample_fromisoformat and now = 300
      and event_id = 1 and event = fair and caller = 1
      and d' = "no_fields\<lparr>eb_date := Val ''2030-04-01T10:00:00''\<rparr>"
      and ds' = "''2030-04-01T10:00:00''"]
  note empty = date_validation [where s = sample_db and user_id = 1 and user = ann
      and d = "fair_body\<lparr>eb_date := Val []\<rparr>"
      and fromisoformat = sample_fromisoformat and now = 300
      and event_id = 1 and event = fair and caller = 1
      and d' = "no_fields\<lparr>eb_date := Val []\<rparr>"]
  have 1: "create_event sample_fromisoformat 300 1
       (Some (fair_body\<lparr>eb_date := Val ''tomorrow''\<rparr>)) sample_db
     = ((Error ''Invalid date format'', 400), sample_db)"
    using bad [THEN conjunct1] u b(5-7) p(1) by simp
  have 2: "snd (fst (create_event sample_fromisoformat 300 1 (Some fair_body) sample_db)) = 201"
    using good [THEN conjunct1] u b(1-4) p(3) by simp
  have 3: "update_event sample_fromisoformat 1 1
       (Some (no_fields\<lparr>eb_date := Val ''next week''\<rparr>)) sample_db
     = ((Error ''Invalid date format'', 400), sample_db)"
    using bad [THEN conjunct2, THEN conjunct1] e p(2) by simp
  have 4: "snd (fst (update_event sample_fromisoformat 1 1
                 (Some (no_fields\<lparr>eb_date := Val ''2030-04-01T10:00:00''\<rparr>)) sample_db)) = 200"
    using good [THEN conjunct2, THEN conjunct1] e p(4) by simp
  have 5: "create_event sample_fromisoformat 300 1 (Some (fair_body\<lparr>eb_date := Val []\<rparr>))
       sample_db = ((Error ''Missing required fields'', 400), sample_db)"
    using empty [THEN conjunct2, THEN conjunct2, THEN conjunct1] u by simp
  have 6: "snd (fst (update_event sample_fromisoformat 1 1
       (Some (no_fields\<lparr>eb_date := Val []\<rparr>)) sample_db)) = 200"
    using empty [THEN conjunct2, THEN conjunct2, THEN conjunct2, THEN conjunct1] e by simp
  have 7: "parse_date sample_fromisoformat (''2030-05-01T10:00:00'' @ ''Z'') = Some 5000"
    using bad [THEN conjunct2, THEN conjunct2, THEN conjunct2, THEN conjunct2, THEN conjunct1]
      p(5) by (simp only:)
  show ?thesis
    by (rule conjI [OF 1 conjI [OF 2 conjI [OF 3 conjI [OF 4 conjI [OF 5 conjI [OF 6 7]]]]]])
qed

end
